theory Spec2Isabelle
  imports Main "HOL-Library.Word" "HOL-Library.Char_ord" "HOL-Library.List_Lexorder"
begin

section \<open>Domain model (package domain)\<close>

text \<open>
  Go's \<open>int64\<close> is a 64-bit word. A \<open>time.Time\<close> is modelled by its number of
  nanoseconds since the Unix epoch. A Go \<open>error\<close> is an \<open>error option\<close>, with
  \<open>None\<close> for \<open>nil\<close>; the text of an error is the prefix that \<open>fmt.Errorf\<close>
  puts in front of the wrapped driver error, and the whole text where a handler prints
  \<open>err.Error()\<close>.
\<close>

type_synonym int64 = "64 word"
type_synonym time = int

datatype error = Err string


definition BookingStatusPending :: string where "BookingStatusPending = ''pending''"
definition BookingStatusConfirmed :: string where "BookingStatusConfirmed = ''confirmed''"
definition BookingStatusCompleted :: string where "BookingStatusCompleted = ''completed''"
definition BookingStatusCancelled :: string where "BookingStatusCancelled = ''cancelled''"

definition TicketStatusReceived :: string where "TicketStatusReceived = ''received''"
definition TicketStatusDiagnosing :: string where "TicketStatusDiagnosing = ''diagnosing''"
definition TicketStatusInProgress :: string where "TicketStatusInProgress = ''in_progress''"
definition TicketStatusWaitingParts :: string where "TicketStatusWaitingParts = ''waiting_parts''"
definition TicketStatusReady :: string where "TicketStatusReady = ''ready''"
definition TicketStatusDelivered :: string where "TicketStatusDelivered = ''delivered''"

definition RoleCustomer :: string where "RoleCustomer = ''customer''"
definition RoleTechnician :: string where "RoleTechnician = ''technician''"
definition RoleAdmin :: string where "RoleAdmin = ''admin''"

text \<open>
  The structs of the domain package, with the columns the repositories read and write.
  The joined pointers (\<open>Booking.Customer\<close>, \<open>Ticket.Technician\<close>, ...) and the derived
  \<open>QRCodeBase64\<close> are presentation data and are left out. A row of a table is the
  struct of its columns; where \<open>Create\<close> stores \<open>NULL\<close> for the id 0
  (\<open>Booking.BicycleID\<close>, \<open>Bicycle.BrandID\<close>, \<open>Bicycle.ModelID\<close>), the 0 of the
  row stands for that \<open>NULL\<close>.
\<close>

record User =
  User_ID :: int64
  User_Email :: string
  User_PasswordHash :: string
  User_Name :: string
  User_Phone :: string
  User_Role :: string
  User_CreatedAt :: time

record Brand =
  Brand_ID :: int64
  Brand_Name :: string
  Brand_LogoURL :: string

record Model =
  Model_ID :: int64
  Model_BrandID :: int64
  Model_Name :: string

record Bicycle =
  Bicycle_ID :: int64
  Bicycle_UserID :: int64
  Bicycle_BrandID :: int64
  Bicycle_ModelID :: int64
  Bicycle_Color :: string
  Bicycle_SerialNumber :: string
  Bicycle_Notes :: string
  Bicycle_CreatedAt :: time

record Booking =
  Booking_ID :: int64
  Booking_CustomerID :: int64
  Booking_BicycleID :: int64
  Booking_ServiceID :: int64
  Booking_ScheduledAt :: time
  Booking_Status :: string
  Booking_Notes :: string
  Booking_CreatedAt :: time

record Ticket =
  Ticket_ID :: int64
  Ticket_BookingID :: int64
  Ticket_TechnicianID :: int64
  Ticket_TrackingCode :: string
  Ticket_QRCode :: string
  Ticket_Status :: string
  Ticket_Notes :: string
  Ticket_CreatedAt :: time
  Ticket_UpdatedAt :: time

record TicketStatusHistory =
  History_ID :: int64
  History_TicketID :: int64
  History_Status :: string
  History_ChangedBy :: int64
  History_Notes :: string
  History_CreatedAt :: time

text \<open>
  A row of table \<open>ticket_status_history\<close>: column \<open>changed_by\<close> is nullable
  (\<open>None\<close> is SQL \<open>NULL\<close>).
\<close>

record history_row =
  row_id :: int64
  row_ticket_id :: int64
  row_status :: string
  row_changed_by :: "int64 option"
  row_notes :: string
  row_created_at :: time

section \<open>Configuration, claims, requests and responses (package server)\<close>

record Config =
  Config_Debug :: bool
  Config_Server_Port :: int
  Config_Business_Name :: string
  Config_JWT_Secret :: string
  Config_JWT_ExpirationHours :: int64

text \<open>
  \<open>Claims\<close> embeds \<open>jwt.RegisteredClaims\<close>, whose date fields are pointers
  (\<open>None\<close> is \<open>nil\<close>).
\<close>

record Claims =
  Claims_UserID :: int64
  Claims_Email :: string
  Claims_Role :: string
  Claims_ExpiresAt :: "time option"
  Claims_IssuedAt :: "time option"
  Claims_Issuer :: string

datatype SameSite = SameSiteDefault | SameSiteStrictMode

record Cookie =
  Cookie_Name :: string
  Cookie_Value :: string
  Cookie_Path :: string
  Cookie_MaxAge :: int
  Cookie_HttpOnly :: bool
  Cookie_Secure :: bool
  Cookie_SameSite :: SameSite

record FlashMessage =
  Flash_Type :: string
  Flash_Message :: string

record PageData =
  Page_Title :: string
  Page_Config :: Config
  Page_Year :: int
  Page_User :: "Claims option"
  Page_Flash :: "FlashMessage option"

text \<open>
  An incoming request: the route parameter \<open>id\<close>, the form (with the flag that
  \<open>r.ParseForm()\<close> returns an error), the cookies, the headers, and the claims that
  \<open>authMiddleware\<close> stores in the request context under \<open>userContextKey\<close>.
\<close>

record request =
  url_id :: string
  form_error :: bool
  form_values :: "(string \<times> string) list"
  cookies :: "(string \<times> string) list"
  headers :: "(string \<times> string) list"
  ctx_user :: "Claims option"

text \<open>
  What a handler does to answer: the call of \<open>http.Redirect\<close> with its target and
  code as the handler passes them (\<open>net/http\<close> writes the \<open>Location\<close> header from
  the target), the call of \<open>http.Error\<close> with its message and code, a rendered
  template (name, data), or a panic (answered by the \<open>Recoverer\<close> middleware); and
  the cookies set before.
\<close>

datatype reply =
  Redirect string nat
| Error string nat
| Render string PageData
| Panic

record response =
  set_cookies :: "Cookie list"
  reply :: reply

definition StatusSeeOther :: nat where "StatusSeeOther = 303"
definition StatusBadRequest :: nat where "StatusBadRequest = 400"
definition StatusUnauthorized :: nat where "StatusUnauthorized = 401"
definition StatusForbidden :: nat where "StatusForbidden = 403"
definition StatusNotFound :: nat where "StatusNotFound = 404"
definition StatusInternalServerError :: nat where "StatusInternalServerError = 500"

definition http_Redirect :: "string \<Rightarrow> nat \<Rightarrow> response" where
  "http_Redirect url code = \<lparr>set_cookies = [], reply = Redirect url code\<rparr>"

definition http_Error :: "string \<Rightarrow> nat \<Rightarrow> response" where
  "http_Error msg code = \<lparr>set_cookies = [], reply = Error msg code\<rparr>"

definition http_NotFound :: response where
  "http_NotFound = http_Error ''404 page not found'' StatusNotFound"

definition FormValue :: "request \<Rightarrow> string \<Rightarrow> string" where
  "FormValue r key = (case map_of (form_values r) key of None \<Rightarrow> [] | Some v \<Rightarrow> v)"

definition getUserClaims :: "request \<Rightarrow> Claims option" where
  "getUserClaims r = ctx_user r"

section \<open>The environment and the store\<close>

text \<open>
  What the code takes from outside is an oracle of the environment:
  \<^item> \<open>exec_error n\<close>: the n-th database statement returns a driver error;
    \<open>last_id_error n\<close>: \<open>LastInsertId\<close> returns an error when \<open>n\<close> statements have run;
  \<^item> \<open>now_at n\<close>: the n-th reading of \<open>time.Now()\<close>; \<open>time_Year\<close>: the calendar year
    of a time in the zone of the server;
  \<^item> \<open>rand_code n\<close>: the n-th code that \<open>generateTrackingCode\<close> draws from
    \<open>crypto/rand\<close>;
  \<^item> \<open>qrcode_Encode\<close>: the image of the QR encoder, \<open>None\<close> for its error;
  \<^item> \<open>template_error\<close>: the error message of the template engine for a page, \<open>None\<close>
    when it renders;
  \<^item> \<open>bcrypt_CompareHashAndPassword hash password\<close>: the error of bcrypt, \<open>None\<close>
    for nil; \<open>bcrypt_GenerateFromPassword n password\<close>: the hash that bcrypt makes
    at the default cost with the salt of the n-th draw from \<open>crypto/rand\<close>, or its
    error;
  \<^item> \<open>strings_TrimSpace\<close> and \<open>strings_EqualFold\<close>: the two functions of package
    \<open>strings\<close>, which rest on the tables of Unicode;
  \<^item> \<open>error_text n\<close>: the text of the error that the driver returns for the n-th
    statement;
  \<^item> \<open>jwt_SignedString key claims\<close>: the signed token, \<open>None\<close> for an error;
    \<open>jwt_ParseWithClaims token key now\<close>: the claims of a token that is valid at the
    time \<open>now\<close>, \<open>None\<close> when the library returns an error or the token is not
    valid.
\<close>

record env =
  exec_error :: "nat \<Rightarrow> bool"
  last_id_error :: "nat \<Rightarrow> bool"
  now_at :: "nat \<Rightarrow> time"
  rand_code :: "nat \<Rightarrow> string"
  qrcode_Encode :: "string \<Rightarrow> string option"
  template_error :: "string \<Rightarrow> PageData \<Rightarrow> string option"
  time_Year :: "time \<Rightarrow> int"
  bcrypt_CompareHashAndPassword :: "string \<Rightarrow> string \<Rightarrow> error option"
  jwt_SignedString :: "string \<Rightarrow> Claims \<Rightarrow> string option"
  jwt_ParseWithClaims :: "string \<Rightarrow> string \<Rightarrow> time \<Rightarrow> Claims option"
  bcrypt_GenerateFromPassword :: "nat \<Rightarrow> string \<Rightarrow> error + string"
  strings_TrimSpace :: "string \<Rightarrow> string"
  strings_EqualFold :: "string \<Rightarrow> string \<Rightarrow> bool"
  error_text :: "nat \<Rightarrow> string"

text \<open>
  The state: the tables of the SQLite file (rows in insertion order), the
  \<open>AUTOINCREMENT\<close> counters of \<open>sqlite_sequence\<close> (the largest id that the table
  has held), and how many oracle values have been consumed.
\<close>

record world =
  users :: "User list"
  brands :: "Brand list"
  models :: "Model list"
  bicycles :: "Bicycle list"
  bookings :: "Booking list"
  tickets :: "Ticket list"
  ticket_status_history :: "history_row list"
  users_seq :: int64
  brands_seq :: int64
  models_seq :: int64
  bicycles_seq :: int64
  bookings_seq :: int64
  tickets_seq :: int64
  history_seq :: int64
  n_exec :: nat
  n_now :: nat
  n_rand :: nat

definition time_Now :: "env \<Rightarrow> world \<Rightarrow> time \<times> world" where
  "time_Now e w = (now_at e (n_now w), w\<lparr>n_now := Suc (n_now w)\<rparr>)"

section \<open>Role gate (roleMiddleware)\<close>

text \<open>The loop over \<open>allowedRoles\<close>, which breaks at the first match.\<close>

fun role_loop :: "string \<Rightarrow> string list \<Rightarrow> bool" where
  "role_loop role [] = False"
| "role_loop role (x # xs) = (if role = x then True else role_loop role xs)"

definition roleMiddleware ::
  "string list \<Rightarrow> (request \<Rightarrow> world \<Rightarrow> response \<times> world) \<Rightarrow>
   request \<Rightarrow> world \<Rightarrow> response \<times> world" where
  "roleMiddleware allowedRoles next r w =
     (case getUserClaims r of
        None \<Rightarrow> (http_Error ''Unauthorized'' StatusUnauthorized, w)
      | Some claims \<Rightarrow>
          (let allowed = role_loop (Claims_Role claims) allowedRoles;
               allowed = (if Claims_Role claims = RoleAdmin then True else allowed)
           in if \<not> allowed then (http_Error ''Forbidden'' StatusForbidden, w)
              else next r w))"

section \<open>strconv\<close>

text \<open>
  \<open>strconv.ParseInt(s, 10, 64)\<close>: an optional sign, then decimal digits only; the value
  and whether the error is not nil. A syntax error gives 0, a value out of range the
  nearest bound. \<open>strconv.Itoa\<close> and \<open>strconv.FormatInt(i, 10)\<close> print decimally.
\<close>

definition digit_val :: "char \<Rightarrow> nat option" where
  "digit_val c =
     (let n = (of_char c :: nat) in if 48 \<le> n \<and> n \<le> 57 then Some (n - 48) else None)"

fun parse_digits :: "nat \<Rightarrow> string \<Rightarrow> nat option" where
  "parse_digits acc [] = Some acc"
| "parse_digits acc (c # cs) =
     (case digit_val c of None \<Rightarrow> None | Some d \<Rightarrow> parse_digits (acc * 10 + d) cs)"

definition ParseInt :: "string \<Rightarrow> int64 \<times> bool" where
  "ParseInt s =
     (case s of
        [] \<Rightarrow> (0, True)
      | c # cs \<Rightarrow>
          (let neg = (c = CHR ''-'');
               body = (if c = CHR ''+'' \<or> c = CHR ''-'' then cs else s)
           in if body = [] then (0, True)
              else (case parse_digits 0 body of
                      None \<Rightarrow> (0, True)
                    | Some un \<Rightarrow>
                        if \<not> neg \<and> un \<ge> 9223372036854775808
                        then (9223372036854775807, True)
                        else if neg \<and> un > 9223372036854775808
                        then (- 9223372036854775808, True)
                        else (if neg then - word_of_nat un else word_of_nat un, False))))"

definition digit_char :: "nat \<Rightarrow> char" where
  "digit_char d = ''0123456789'' ! (d mod 10)"

function format_nat :: "nat \<Rightarrow> string" where
  "format_nat n =
     (if n < 10 then [digit_char n]
      else format_nat (n div 10) @ [digit_char (n mod 10)])"
  by pat_completeness auto
termination
  by (relation "measure id") auto

declare format_nat.simps [simp del]

definition Itoa :: "int \<Rightarrow> string" where
  "Itoa i = (if i < 0 then CHR ''-'' # format_nat (nat (- i)) else format_nat (nat i))"

definition FormatInt :: "int64 \<Rightarrow> string" where
  "FormatInt i = Itoa (sint i)"

section \<open>Repositories (package sqlite)\<close>

text \<open>
  \<open>ExecContext\<close> runs one statement: the driver may return an error (the oracle), or
  SQLite may refuse the statement (\<open>None\<close>: it violates a constraint of the schema, or
  the \<open>AUTOINCREMENT\<close> sequence of the table has reached the largest id and SQLite
  answers \<open>SQLITE_FULL\<close>); then the tables are as before. Otherwise the statement
  changes the tables. The result is whether the error is not nil.
  \<open>QueryRowContext\<close> and \<open>QueryContext\<close> read, and may return a driver error too.
  The connection string sets no \<open>foreign_keys\<close> pragma, so SQLite does not enforce
  the \<open>REFERENCES\<close> clauses of the schema.
\<close>

definition ExecContext :: "env \<Rightarrow> (world \<Rightarrow> world option) \<Rightarrow> world \<Rightarrow> bool \<times> world" where
  "ExecContext e stmt w =
     (let w1 = w\<lparr>n_exec := Suc (n_exec w)\<rparr>
      in if exec_error e (n_exec w) then (True, w1)
         else (case stmt w1 of None \<Rightarrow> (True, w1) | Some w2 \<Rightarrow> (False, w2)))"

definition QueryRowContext :: "env \<Rightarrow> world \<Rightarrow> bool \<times> world" where
  "QueryRowContext e w = (exec_error e (n_exec w), w\<lparr>n_exec := Suc (n_exec w)\<rparr>)"


text \<open>
  \<open>INSERT INTO tickets (...)\<close>: column \<open>tracking_code\<close> is \<open>UNIQUE\<close>; the id is the
  next value of the \<open>AUTOINCREMENT\<close> sequence.
\<close>

definition sql_insert_ticket :: "Ticket \<Rightarrow> world \<Rightarrow> world option" where
  "sql_insert_ticket t w =
     (if Ticket_TrackingCode t \<in> Ticket_TrackingCode ` set (tickets w) \<or>
         tickets_seq w = 9223372036854775807
      then None
      else let ident = tickets_seq w + 1
           in Some (w\<lparr>tickets := tickets w @ [t\<lparr>Ticket_ID := ident\<rparr>], tickets_seq := ident\<rparr>))"


text \<open>\<open>UPDATE tickets SET status = ?, updated_at = ? WHERE id = ?\<close>\<close>

definition sql_update_ticket_status :: "string \<Rightarrow> time \<Rightarrow> int64 \<Rightarrow> world \<Rightarrow> world option" where
  "sql_update_ticket_status status now ident w =
     Some (w\<lparr>tickets :=
              map (\<lambda>t. if Ticket_ID t = ident
                       then t\<lparr>Ticket_Status := status, Ticket_UpdatedAt := now\<rparr> else t)
                  (tickets w)\<rparr>)"

text \<open>\<open>INSERT INTO ticket_status_history (ticket_id, status, changed_by, notes, created_at)\<close>\<close>

definition sql_insert_history ::
  "int64 \<Rightarrow> string \<Rightarrow> int64 option \<Rightarrow> string \<Rightarrow> time \<Rightarrow> world \<Rightarrow> world option" where
  "sql_insert_history ticket_id status changed_by notes created_at w =
     (if history_seq w = 9223372036854775807 then None
      else let ident = history_seq w + 1
           in Some (w\<lparr>ticket_status_history :=
                        ticket_status_history w @
                        [\<lparr>row_id = ident, row_ticket_id = ticket_id, row_status = status,
                          row_changed_by = changed_by, row_notes = notes,
                          row_created_at = created_at\<rparr>],
                      history_seq := ident\<rparr>))"

text \<open>\<open>UPDATE bookings SET status = ? WHERE id = ?\<close>\<close>

definition sql_update_booking_status :: "string \<Rightarrow> int64 \<Rightarrow> world \<Rightarrow> world option" where
  "sql_update_booking_status status ident w =
     Some (w\<lparr>bookings :=
              map (\<lambda>b. if Booking_ID b = ident then b\<lparr>Booking_Status := status\<rparr> else b)
                  (bookings w)\<rparr>)"






definition CreateStatusHistory ::
  "env \<Rightarrow> TicketStatusHistory \<Rightarrow> world \<Rightarrow> error option \<times> world" where
  "CreateStatusHistory e history w =
     (let changedBy = (if History_ChangedBy history \<noteq> 0
                       then Some (History_ChangedBy history) else None)
      in case time_Now e w of (now, w1) \<Rightarrow>
         case ExecContext e
                (sql_insert_history (History_TicketID history) (History_Status history)
                   changedBy (History_Notes history) now) w1 of
           (failed, w2) \<Rightarrow>
             if failed then (Some (Err ''failed to create ticket status history''), w2)
             else (None, w2))"

text \<open>
  \<open>TicketRepo.Create\<close> returns the ticket as the caller sees it afterwards (the
  pointer's target) and the error. A failure of the history insert is printed and
  dropped.
\<close>

definition TicketRepo_Create :: "env \<Rightarrow> Ticket \<Rightarrow> world \<Rightarrow> (Ticket \<times> error option) \<times> world" where
  "TicketRepo_Create e ticket w =
     (case time_Now e w of (now, w1) \<Rightarrow>
      case ExecContext e
             (sql_insert_ticket (ticket\<lparr>Ticket_CreatedAt := now, Ticket_UpdatedAt := now\<rparr>)) w1 of
        (failed, w2) \<Rightarrow>
          if failed then ((ticket, Some (Err ''failed to create ticket'')), w2)
          else if last_id_error e (n_exec w2)
          then ((ticket, Some (Err ''failed to get ticket ID'')), w2)
          else
            (let ident = tickets_seq w2;
                 ticket' = ticket\<lparr>Ticket_ID := ident, Ticket_CreatedAt := now,
                                  Ticket_UpdatedAt := now\<rparr>;
                 history = \<lparr>History_ID = 0, History_TicketID = ident,
                            History_Status = Ticket_Status ticket',
                            History_ChangedBy = Ticket_TechnicianID ticket',
                            History_Notes = ''Ticket creado'', History_CreatedAt = now\<rparr>
             in case CreateStatusHistory e history w2 of
                  (err, w3) \<Rightarrow> ((ticket', None), w3)))"

definition TicketRepo_GetByID ::
  "env \<Rightarrow> int64 \<Rightarrow> world \<Rightarrow> (Ticket option \<times> error option) \<times> world" where
  "TicketRepo_GetByID e ident w =
     (case QueryRowContext e w of (failed, w1) \<Rightarrow>
        if failed then ((None, Some (Err ''failed to get ticket'')), w1)
        else (case find (\<lambda>t. Ticket_ID t = ident) (tickets w1) of
                None \<Rightarrow> ((None, None), w1)
              | Some t \<Rightarrow> ((Some t, None), w1)))"


definition TicketRepo_UpdateStatus ::
  "env \<Rightarrow> int64 \<Rightarrow> string \<Rightarrow> int64 \<Rightarrow> string \<Rightarrow> world \<Rightarrow> error option \<times> world" where
  "TicketRepo_UpdateStatus e ident status changedBy notes w =
     (case time_Now e w of (now, w1) \<Rightarrow>
      case ExecContext e (sql_update_ticket_status status now ident) w1 of
        (failed, w2) \<Rightarrow>
          if failed then (Some (Err ''failed to update ticket status''), w2)
          else
            (let history = \<lparr>History_ID = 0, History_TicketID = ident, History_Status = status,
                            History_ChangedBy = changedBy, History_Notes = notes,
                            History_CreatedAt = now\<rparr>
             in case CreateStatusHistory e history w2 of
                  (err, w3) \<Rightarrow> (None, w3)))"

text \<open>
  \<open>GetStatusHistory\<close> reads the rows of one ticket; a \<open>NULL\<close> in \<open>changed_by\<close>
  leaves \<open>ChangedBy\<close> at its zero value.
\<close>

definition scan_history :: "history_row \<Rightarrow> TicketStatusHistory" where
  "scan_history h =
     \<lparr>History_ID = row_id h, History_TicketID = row_ticket_id h,
      History_Status = row_status h,
      History_ChangedBy = (case row_changed_by h of Some v \<Rightarrow> v | None \<Rightarrow> 0),
      History_Notes = row_notes h, History_CreatedAt = row_created_at h\<rparr>"

definition TicketRepo_GetStatusHistory ::
  "env \<Rightarrow> int64 \<Rightarrow> world \<Rightarrow> (TicketStatusHistory list \<times> error option) \<times> world" where
  "TicketRepo_GetStatusHistory e ticketID w =
     (case QueryRowContext e w of (failed, w1) \<Rightarrow>
        if failed then (([], Some (Err ''failed to get ticket status history'')), w1)
        else ((map scan_history
                 (filter (\<lambda>h. row_ticket_id h = ticketID) (ticket_status_history w1)),
               None), w1))"

text \<open>
  \<open>BookingRepo.GetByID\<close> joins the customer with \<open>LEFT JOIN\<close> and scans the user's
  columns into plain fields: without a user row the scan fails.
\<close>

definition BookingRepo_GetByID ::
  "env \<Rightarrow> int64 \<Rightarrow> world \<Rightarrow> (Booking option \<times> error option) \<times> world" where
  "BookingRepo_GetByID e ident w =
     (case QueryRowContext e w of (failed, w1) \<Rightarrow>
        if failed then ((None, Some (Err ''failed to get booking'')), w1)
        else (case find (\<lambda>b. Booking_ID b = ident) (bookings w1) of
                None \<Rightarrow> ((None, None), w1)
              | Some b \<Rightarrow>
                  if find (\<lambda>u. User_ID u = Booking_CustomerID b) (users w1) = None
                  then ((None, Some (Err ''failed to get booking'')), w1)
                  else ((Some b, None), w1)))"

definition BookingRepo_UpdateStatus ::
  "env \<Rightarrow> int64 \<Rightarrow> string \<Rightarrow> world \<Rightarrow> error option \<times> world" where
  "BookingRepo_UpdateStatus e ident status w =
     (case ExecContext e (sql_update_booking_status status ident) w of
        (failed, w1) \<Rightarrow>
          if failed then (Some (Err ''failed to update booking status''), w1)
          else (None, w1))"








definition UserRepo_GetByEmail ::
  "env \<Rightarrow> string \<Rightarrow> world \<Rightarrow> (User option \<times> error option) \<times> world" where
  "UserRepo_GetByEmail e email w =
     (case QueryRowContext e w of (failed, w1) \<Rightarrow>
        if failed then ((None, Some (Err ''failed to get user by email'')), w1)
        else (case find (\<lambda>u. User_Email u = email) (users w1) of
                None \<Rightarrow> ((None, None), w1)
              | Some u \<Rightarrow> ((Some u, None), w1)))"

section \<open>Passwords (hashPassword, checkPasswordHash)\<close>


definition checkPasswordHash :: "env \<Rightarrow> string \<Rightarrow> string \<Rightarrow> bool" where
  "checkPasswordHash e password hash = (bcrypt_CompareHashAndPassword e hash password = None)"

section \<open>Handlers (package server)\<close>

definition panic :: response where
  "panic = \<lparr>set_cookies = [], reply = Panic\<rparr>"

definition generateTrackingCode :: "env \<Rightarrow> world \<Rightarrow> string \<times> world" where
  "generateTrackingCode e w = (rand_code e (n_rand w), w\<lparr>n_rand := Suc (n_rand w)\<rparr>)"

text \<open>The zero \<open>time.Time\<close> (1 January of year 1, UTC) in nanoseconds since the epoch.\<close>

definition zero_time :: time where
  "zero_time = - 62135596800000000000"

text \<open>
  The \<open>switch\<close> on \<open>ticket.Status\<close> in \<open>handleUpdateTicketStatus\<close>, case by case,
  and the check after it that lets the same status through.
\<close>

definition transition_switch :: "string \<Rightarrow> string \<Rightarrow> bool" where
  "transition_switch cur status =
     (if cur = TicketStatusReceived then status = TicketStatusDiagnosing
      else if cur = TicketStatusDiagnosing then
        status = TicketStatusInProgress \<or> status = TicketStatusWaitingParts \<or>
        status = TicketStatusReady
      else if cur = TicketStatusInProgress then
        status = TicketStatusWaitingParts \<or> status = TicketStatusReady
      else if cur = TicketStatusWaitingParts then
        status = TicketStatusInProgress \<or> status = TicketStatusReady
      else if cur = TicketStatusReady then status = TicketStatusDelivered
      else if cur = TicketStatusDelivered then False
      else cur = status)"

definition transition_valid :: "string \<Rightarrow> string \<Rightarrow> bool" where
  "transition_valid cur status =
     (let valid = transition_switch cur status
      in if cur = status then True else valid)"

definition handleUpdateTicketStatus :: "env \<Rightarrow> request \<Rightarrow> world \<Rightarrow> response \<times> world" where
  "handleUpdateTicketStatus e r w =
     (if form_error r then (http_Error ''Error processing form'' StatusBadRequest, w)
      else
        (let claims = getUserClaims r;
             ident = fst (ParseInt (url_id r));
             status = FormValue r ''status'';
             notes = FormValue r ''notes''
         in case TicketRepo_GetByID e ident w of
              ((None, err), w1) \<Rightarrow> (http_NotFound, w1)
            | ((Some ticket, err), w1) \<Rightarrow>
                if err \<noteq> None then (http_NotFound, w1)
                else
                  (case claims of
                     None \<Rightarrow> (panic, w1)
                   | Some c \<Rightarrow>
                       if Claims_Role c = RoleTechnician \<and>
                          Ticket_TechnicianID ticket \<noteq> Claims_UserID c
                       then (http_Error ''Forbidden: You are not assigned to this ticket''
                               StatusForbidden, w1)
                       else if Claims_Role c = RoleTechnician \<and>
                               \<not> transition_valid (Ticket_Status ticket) status
                       then (http_Redirect
                               (''/tickets/'' @ FormatInt ident @ ''?error=invalid_transition'')
                               StatusSeeOther, w1)
                       else
                         (case TicketRepo_UpdateStatus e ident status (Claims_UserID c) notes w1 of
                            (Some err, w2) \<Rightarrow>
                              (http_Redirect
                                 (''/tickets/'' @ FormatInt ident @ ''?error=update_failed'')
                                 StatusSeeOther, w2)
                          | (None, w2) \<Rightarrow>
                              (http_Redirect (''/tickets/'' @ url_id r) StatusSeeOther, w2)))))"












text \<open>
  The group of technician routes in \<open>setupRoutes\<close> runs \<open>roleMiddleware\<close> with
  technician and admin (after \<open>authMiddleware\<close>, which puts the claims into the
  request): \<open>POST /tickets/{id}/status\<close>, \<open>POST /tickets/{id}/notes\<close>,
  \<open>POST /bookings/{id}/ticket\<close> and \<open>POST /tickets/create_direct\<close> are in it. The
  group of admin routes runs it with admin only:
  \<open>POST /admin/tickets/{id}/technician\<close> is in it.
\<close>

definition technician_group ::
  "(request \<Rightarrow> world \<Rightarrow> response \<times> world) \<Rightarrow> request \<Rightarrow> world \<Rightarrow> response \<times> world" where
  "technician_group handler = roleMiddleware [RoleTechnician, RoleAdmin] handler"


definition handleCreateTicket ::
  "env \<Rightarrow> Config \<Rightarrow> request \<Rightarrow> world \<Rightarrow> response \<times> world" where
  "handleCreateTicket e cfg r w =
     (let claims = getUserClaims r;
          bookingID = fst (ParseInt (url_id r))
      in case BookingRepo_GetByID e bookingID w of
           ((None, err), w1) \<Rightarrow> (http_NotFound, w1)
         | ((Some booking, err), w1) \<Rightarrow>
             if err \<noteq> None then (http_NotFound, w1)
             else
               (case generateTrackingCode e w1 of
                  (trackingCode, w2) \<Rightarrow>
                    (let baseURL = ''http://localhost:'' @ Itoa (Config_Server_Port cfg);
                         trackingURL = baseURL @ ''/tracking/'' @ trackingCode
                     in case qrcode_Encode e trackingURL of
                          None \<Rightarrow>
                            (http_Error ''Error generating QR code'' StatusInternalServerError, w2)
                        | Some qrPNG \<Rightarrow>
                            (case claims of
                               None \<Rightarrow> (panic, w2)
                             | Some c \<Rightarrow>
                                 (let ticket =
                                        \<lparr>Ticket_ID = 0, Ticket_BookingID = bookingID,
                                         Ticket_TechnicianID = Claims_UserID c,
                                         Ticket_TrackingCode = trackingCode,
                                         Ticket_QRCode = qrPNG,
                                         Ticket_Status = TicketStatusReceived,
                                         Ticket_Notes = [],
                                         Ticket_CreatedAt = zero_time,
                                         Ticket_UpdatedAt = zero_time\<rparr>
                                  in case TicketRepo_Create e ticket w2 of
                                       ((ticket', Some err), w3) \<Rightarrow>
                                         (http_Error ''Error creating ticket''
                                            StatusInternalServerError, w3)
                                     | ((ticket', None), w3) \<Rightarrow>
                                         (case BookingRepo_UpdateStatus e bookingID
                                                 BookingStatusConfirmed w3 of
                                            (err, w4) \<Rightarrow>
                                              (http_Redirect
                                                 (''/tickets/'' @ FormatInt (Ticket_ID ticket'))
                                                 StatusSeeOther, w4)))))))"

text \<open>
  \<open>handleCancelBooking\<close>, on the customer routes, calls \<open>Bookings.UpdateStatus\<close>
  too, and checks its error.
\<close>

definition handleCancelBooking :: "env \<Rightarrow> request \<Rightarrow> world \<Rightarrow> response \<times> world" where
  "handleCancelBooking e r w =
     (let claims = getUserClaims r;
          ident = fst (ParseInt (url_id r))
      in case BookingRepo_GetByID e ident w of
           ((None, err), w1) \<Rightarrow> (http_NotFound, w1)
         | ((Some booking, err), w1) \<Rightarrow>
             if err \<noteq> None then (http_NotFound, w1)
             else
               (case claims of
                  None \<Rightarrow> (panic, w1)
                | Some c \<Rightarrow>
                    if Claims_Role c = RoleCustomer \<and>
                       Booking_CustomerID booking \<noteq> Claims_UserID c
                    then (http_Error ''Forbidden'' StatusForbidden, w1)
                    else
                      (case BookingRepo_UpdateStatus e ident BookingStatusCancelled w1 of
                         (Some err, w2) \<Rightarrow>
                           (http_Error ''Error cancelling booking'' StatusInternalServerError,
                            w2)
                       | (None, w2) \<Rightarrow> (http_Redirect ''/bookings'' StatusSeeOther, w2))))"

section \<open>Login and session token\<close>

text \<open>The two Spanish literals of the login page, as the UTF-8 bytes of the Go strings.\<close>

definition title_Iniciar_Sesion :: string where
  "title_Iniciar_Sesion = ''Iniciar Sesi'' @ [CHR 0xC3, CHR 0xB3] @ ''n''"

definition msg_Credenciales_invalidas :: string where
  "msg_Credenciales_invalidas = ''Credenciales inv'' @ [CHR 0xC3, CHR 0xA1] @ ''lidas''"

definition newPageData :: "env \<Rightarrow> Config \<Rightarrow> request \<Rightarrow> string \<Rightarrow> world \<Rightarrow> PageData \<times> world" where
  "newPageData e cfg r title w =
     (let claims = getUserClaims r
      in case time_Now e w of
           (now, w1) \<Rightarrow>
             (\<lparr>Page_Title = title, Page_Config = cfg, Page_Year = time_Year e now,
               Page_User = claims, Page_Flash = None\<rparr>, w1))"

definition render :: "env \<Rightarrow> string \<Rightarrow> PageData \<Rightarrow> response" where
  "render e template data =
     (case template_error e template data of
        None \<Rightarrow> \<lparr>set_cookies = [], reply = Render template data\<rparr>
      | Some msg \<Rightarrow> http_Error (''Error rendering page: '' @ msg) StatusInternalServerError)"

text \<open>
  \<open>time.Hour\<close> in nanoseconds; the product with the configured hours is a
  \<open>time.Duration\<close>, an \<open>int64\<close>. \<open>jwt.NewNumericDate\<close> truncates to the second.
\<close>

definition time_Hour :: int64 where
  "time_Hour = 3600000000000"

definition NewNumericDate :: "time \<Rightarrow> time" where
  "NewNumericDate t = t - t mod 1000000000"

definition generateToken :: "env \<Rightarrow> Config \<Rightarrow> User \<Rightarrow> world \<Rightarrow> string option \<times> world" where
  "generateToken e cfg user w =
     (case time_Now e w of
        (t1, w1) \<Rightarrow>
          (let expirationTime = t1 + sint (Config_JWT_ExpirationHours cfg * time_Hour)
           in case time_Now e w1 of
                (t2, w2) \<Rightarrow>
                  (let claims =
                         \<lparr>Claims_UserID = User_ID user, Claims_Email = User_Email user,
                          Claims_Role = User_Role user,
                          Claims_ExpiresAt = Some (NewNumericDate expirationTime),
                          Claims_IssuedAt = Some (NewNumericDate t2),
                          Claims_Issuer = Config_Business_Name cfg\<rparr>
                   in (jwt_SignedString e (Config_JWT_Secret cfg) claims, w2))))"

definition setAuthCookie :: "Config \<Rightarrow> string \<Rightarrow> int \<Rightarrow> Cookie" where
  "setAuthCookie cfg token maxAge =
     \<lparr>Cookie_Name = ''auth_token'', Cookie_Value = token, Cookie_Path = ''/'',
      Cookie_MaxAge = maxAge, Cookie_HttpOnly = True, Cookie_Secure = (\<not> Config_Debug cfg),
      Cookie_SameSite = SameSiteStrictMode\<rparr>"

definition clearAuthCookie :: Cookie where
  "clearAuthCookie =
     \<lparr>Cookie_Name = ''auth_token'', Cookie_Value = [], Cookie_Path = ''/'',
      Cookie_MaxAge = - 1, Cookie_HttpOnly = True, Cookie_Secure = False,
      Cookie_SameSite = SameSiteDefault\<rparr>"

definition handleLogin :: "env \<Rightarrow> Config \<Rightarrow> request \<Rightarrow> world \<Rightarrow> response \<times> world" where
  "handleLogin e cfg r w =
     (if form_error r then (http_Error ''Error processing form'' StatusBadRequest, w)
      else
        (let email = FormValue r ''email'';
             password = FormValue r ''password''
         in case UserRepo_GetByEmail e email w of
              ((None, err), w1) \<Rightarrow>
                (case newPageData e cfg r title_Iniciar_Sesion w1 of
                   (data, w2) \<Rightarrow>
                     (render e ''pages/public/login.html''
                        (data\<lparr>Page_Flash :=
                           Some \<lparr>Flash_Type = ''error'',
                                 Flash_Message = msg_Credenciales_invalidas\<rparr>\<rparr>), w2))
            | ((Some user, Some err), w1) \<Rightarrow>
                (case newPageData e cfg r title_Iniciar_Sesion w1 of
                   (data, w2) \<Rightarrow>
                     (render e ''pages/public/login.html''
                        (data\<lparr>Page_Flash :=
                           Some \<lparr>Flash_Type = ''error'',
                                 Flash_Message = msg_Credenciales_invalidas\<rparr>\<rparr>), w2))
            | ((Some user, None), w1) \<Rightarrow>
                if \<not> checkPasswordHash e password (User_PasswordHash user)
                then
                  (case newPageData e cfg r title_Iniciar_Sesion w1 of
                     (data, w2) \<Rightarrow>
                       (render e ''pages/public/login.html''
                          (data\<lparr>Page_Flash :=
                             Some \<lparr>Flash_Type = ''error'',
                                   Flash_Message = msg_Credenciales_invalidas\<rparr>\<rparr>), w2))
                else
                  (case generateToken e cfg user w1 of
                     (None, w2) \<Rightarrow>
                       (http_Error ''Error generating token'' StatusInternalServerError, w2)
                   | (Some token, w2) \<Rightarrow>
                       (let maxAge = sint (Config_JWT_ExpirationHours cfg * 3600);
                            target = (if User_Role user = ''admin'' then ''/admin''
                                      else if User_Role user = ''technician'' then ''/workshop''
                                      else ''/dashboard'')
                        in (\<lparr>set_cookies = [setAuthCookie cfg token maxAge],
                             reply = Redirect target StatusSeeOther\<rparr>, w2)))))"

text \<open>
  \<open>strings.SplitN(s, " ", 2)\<close>: the string itself when it has no space, else the
  part before the first space and the rest after it.
\<close>

definition SplitN2 :: "string \<Rightarrow> string list" where
  "SplitN2 s =
     (if CHR '' '' \<in> set s
      then [takeWhile (\<lambda>c. c \<noteq> CHR '' '') s, tl (dropWhile (\<lambda>c. c \<noteq> CHR '' '') s)]
      else [s])"

text \<open>
  \<open>authMiddleware\<close>: the token of cookie \<open>auth_token\<close>, else of the \<open>Authorization\<close>
  header; \<open>jwt.ParseWithClaims\<close> validates it against the secret of the
  configuration and the clock.
\<close>

definition authMiddleware ::
  "env \<Rightarrow> Config \<Rightarrow> (request \<Rightarrow> world \<Rightarrow> response \<times> world) \<Rightarrow>
   request \<Rightarrow> world \<Rightarrow> response \<times> world" where
  "authMiddleware e cfg next r w =
     (let tokenString =
            (case map_of (cookies r) ''auth_token'' of
               Some v \<Rightarrow> Some v
             | None \<Rightarrow>
                 (let authHeader =
                        (case map_of (headers r) ''Authorization'' of
                           None \<Rightarrow> [] | Some v \<Rightarrow> v)
                  in if authHeader = [] then None
                     else (let parts = SplitN2 authHeader
                           in if length parts \<noteq> 2 \<or> parts ! 0 \<noteq> ''Bearer'' then None
                              else Some (parts ! 1))))
      in case tokenString of
           None \<Rightarrow> (http_Redirect ''/login'' StatusSeeOther, w)
         | Some tok \<Rightarrow>
             (case time_Now e w of
                (now, w1) \<Rightarrow>
                  (case jwt_ParseWithClaims e tok (Config_JWT_Secret cfg) now of
                     None \<Rightarrow>
                       (\<lparr>set_cookies = [clearAuthCookie],
                         reply = Redirect ''/login'' StatusSeeOther\<rparr>, w1)
                   | Some claims \<Rightarrow> next (r\<lparr>ctx_user := Some claims\<rparr>) w1)))"

text \<open>The ticket literal that \<open>handleCreateTicket\<close> builds, in world \<open>w\<close>.\<close>

definition created_ticket :: "env \<Rightarrow> request \<Rightarrow> world \<Rightarrow> Claims \<Rightarrow> string \<Rightarrow> Ticket" where
  "created_ticket e r w c png =
     \<lparr>Ticket_ID = 0, Ticket_BookingID = fst (ParseInt (url_id r)),
      Ticket_TechnicianID = Claims_UserID c, Ticket_TrackingCode = rand_code e (n_rand w),
      Ticket_QRCode = png, Ticket_Status = TicketStatusReceived,
      Ticket_Notes = [], Ticket_CreatedAt = zero_time, Ticket_UpdatedAt = zero_time\<rparr>"

section \<open>The specification's tables and conditions\<close>

text \<open>
  The transition table of the specification for a technician (current status, allowed
  next status), written from its words, to be compared with the \<open>switch\<close> of the code.
\<close>

definition spec_transition_table :: "(string \<times> string) list" where
  "spec_transition_table =
     [(''received'', ''diagnosing''),
      (''diagnosing'', ''in_progress''), (''diagnosing'', ''waiting_parts''),
      (''diagnosing'', ''ready''),
      (''in_progress'', ''waiting_parts''), (''in_progress'', ''ready''),
      (''waiting_parts'', ''in_progress''), (''waiting_parts'', ''ready''),
      (''ready'', ''delivered'')]"

text \<open>
  The specification's condition for a status update to succeed: the actor is admin, or
  is a technician, the ticket is assigned to them, and the pair is in the table or the
  status stays the same.
\<close>

definition spec_update_permitted :: "string \<Rightarrow> bool \<Rightarrow> string \<Rightarrow> string \<Rightarrow> bool" where
  "spec_update_permitted role assigned cur status =
     (role = ''admin'' \<or>
      (role = ''technician'' \<and> assigned \<and>
       ((cur, status) \<in> set spec_transition_table \<or> status = cur)))"




text \<open>
  A login fails, in the specification's words, when no user has the given email or the
  password does not match the stored hash.
\<close>

definition spec_login_fails :: "env \<Rightarrow> request \<Rightarrow> world \<Rightarrow> bool" where
  "spec_login_fails e r w =
     (case find (\<lambda>u. User_Email u = FormValue r ''email'') (users w) of
        None \<Rightarrow> True
      | Some u \<Rightarrow> \<not> checkPasswordHash e (FormValue r ''password'') (User_PasswordHash u))"

section \<open>The libraries: JSON Web Tokens and bcrypt\<close>

text \<open>
  The token is signed and validated by \<open>golang-jwt\<close> (version 5, HS256), which
  writes the claims with \<open>encoding/json\<close>. Of the two libraries the model holds
  what the claims pass through on their way into the token and back.

  A Go string is a sequence of bytes. \<open>utf8_len\<close> is the width of the UTF-8
  encoding at the head of a string as \<open>utf8.DecodeRuneInString\<close> accepts it
  (no overlong form, no surrogate, nothing above U+10FFFF), and 0 where it returns
  \<open>RuneError\<close> of width 1.
\<close>

definition utf8_size :: "nat \<Rightarrow> nat" where
  "utf8_size b =
     (if b < 128 then 1
      else if 194 \<le> b \<and> b \<le> 223 then 2
      else if 224 \<le> b \<and> b \<le> 239 then 3
      else if 240 \<le> b \<and> b \<le> 244 then 4
      else 0)"

definition utf8_second :: "nat \<Rightarrow> nat \<times> nat" where
  "utf8_second b =
     (if b = 224 then (160, 191)
      else if b = 237 then (128, 159)
      else if b = 240 then (144, 191)
      else if b = 244 then (128, 143)
      else (128, 191))"

definition utf8_between :: "char \<Rightarrow> nat \<times> nat \<Rightarrow> bool" where
  "utf8_between c bounds = (fst bounds \<le> of_char c \<and> (of_char c :: nat) \<le> snd bounds)"

definition utf8_len :: "string \<Rightarrow> nat" where
  "utf8_len s =
     (case s of
        [] \<Rightarrow> 0
      | c # cs \<Rightarrow>
          (let b = of_char c; n = utf8_size b
           in if n \<le> 1 then n
              else if length cs < n - 1 then 0
              else if \<not> utf8_between (cs ! 0) (utf8_second b) then 0
              else if n = 2 then 2
              else if \<not> utf8_between (cs ! 1) (128, 191) then 0
              else if n = 3 then 3
              else if \<not> utf8_between (cs ! 2) (128, 191) then 0
              else 4))"

text \<open>
  \<open>json_string\<close> is a string after \<open>json.Marshal\<close> and \<open>json.Unmarshal\<close>: the
  encoder writes the escape of U+FFFD for every byte that starts no valid encoding, and
  the decoder reads it as U+FFFD (bytes EF BF BD); everything else comes back as it was.
  The first argument of \<open>utf8_coerce\<close> counts the bytes still to copy of the encoding
  that has been recognised. \<open>utf8_ValidString\<close> is \<open>utf8.ValidString\<close>.
\<close>

fun utf8_coerce :: "nat \<Rightarrow> string \<Rightarrow> string" where
  "utf8_coerce k [] = []"
| "utf8_coerce (Suc k) (c # cs) = c # utf8_coerce k cs"
| "utf8_coerce 0 (c # cs) =
     (if utf8_len (c # cs) = 0 then CHR 0xEF # CHR 0xBF # CHR 0xBD # utf8_coerce 0 cs
      else c # utf8_coerce (utf8_len (c # cs) - 1) cs)"

definition json_string :: "string \<Rightarrow> string" where
  "json_string s = utf8_coerce 0 s"

fun utf8_valid_from :: "nat \<Rightarrow> string \<Rightarrow> bool" where
  "utf8_valid_from k [] = True"
| "utf8_valid_from (Suc k) (c # cs) = utf8_valid_from k cs"
| "utf8_valid_from 0 (c # cs) =
     (utf8_len (c # cs) \<noteq> 0 \<and> utf8_valid_from (utf8_len (c # cs) - 1) cs)"

definition utf8_ValidString :: "string \<Rightarrow> bool" where
  "utf8_ValidString s = utf8_valid_from 0 s"

text \<open>
  The claims after the round trip through the token: the strings as JSON carries them,
  the dates cut to the second (\<open>NumericDate\<close> is written in whole seconds), the user
  id as it is. The date is read back through a \<open>float64\<close>, which is exact for a
  number of seconds below \<open>2^53\<close>.
\<close>

definition json_Claims :: "Claims \<Rightarrow> Claims" where
  "json_Claims c =
     c\<lparr>Claims_Email := json_string (Claims_Email c),
       Claims_Role := json_string (Claims_Role c),
       Claims_ExpiresAt := map_option NewNumericDate (Claims_ExpiresAt c),
       Claims_IssuedAt := map_option NewNumericDate (Claims_IssuedAt c),
       Claims_Issuer := json_string (Claims_Issuer c)\<rparr>"

definition numeric_date_exact :: "time \<Rightarrow> bool" where
  "numeric_date_exact t =
     (- 9007199254740992000000000 < t \<and> t < 9007199254740992000000000)"

text \<open>
  A reading of the clock that \<open>UnixNano\<close> can hold (the years 1678 to 2262).
\<close>

definition clock_in_range :: "time \<Rightarrow> bool" where
  "clock_in_range t = (- 9223372036854775808 \<le> t \<and> t \<le> 9223372036854775807)"

text \<open>
  What \<open>golang-jwt\<close> does for the two calls of the code, as a condition on the
  oracles of the environment: \<open>SignedString\<close> with an HMAC key returns a token for
  every set of claims, and \<open>ParseWithClaims\<close> of that token with the same key
  checks the signature, reads the claims back, and validates the expiry against the
  clock: the token is valid while the clock is before \<open>exp\<close>. Nothing is said about
  other tokens or other keys.
\<close>

definition golang_jwt :: "env \<Rightarrow> bool" where
  "golang_jwt e =
     (\<forall>key c.
        (\<forall>t. Claims_ExpiresAt c = Some t \<or> Claims_IssuedAt c = Some t \<longrightarrow>
             numeric_date_exact t) \<longrightarrow>
        (\<exists>tok. jwt_SignedString e key c = Some tok \<and>
           (\<forall>now. jwt_ParseWithClaims e tok key now =
              (case Claims_ExpiresAt (json_Claims c) of
                 None \<Rightarrow> Some (json_Claims c)
               | Some E \<Rightarrow> if now < E then Some (json_Claims c) else None))))"



section \<open>Concrete environments, stores and requests\<close>

definition cfg0 :: Config where
  "cfg0 = \<lparr>Config_Debug = False, Config_Server_Port = 8080,
           Config_Business_Name = ''BicicletApp'', Config_JWT_Secret = ''s3cret'',
           Config_JWT_ExpirationHours = 24\<rparr>"

definition user_ana :: User where
  "user_ana = \<lparr>User_ID = 1, User_Email = ''ana@example.com'',
               User_PasswordHash = ''hash:secreto'', User_Name = ''Ana'', User_Phone = [],
               User_Role = ''customer'', User_CreatedAt = 0\<rparr>"

definition claims_ana :: Claims where
  "claims_ana = \<lparr>Claims_UserID = 1, Claims_Email = ''ana@example.com'',
                 Claims_Role = ''customer'',
                 Claims_ExpiresAt = Some 1700086400000000000,
                 Claims_IssuedAt = Some 1700000000000000000,
                 Claims_Issuer = ''BicicletApp''\<rparr>"

text \<open>
  A JWT library for the concrete environments, which keeps \<open>golang_jwt\<close> for every
  key and every set of claims: its token holds the key and the claims as JSON carries
  them, each field written after its length, and its parser reads them back, compares
  the key and validates the expiry.
\<close>

definition enc_nat :: "nat \<Rightarrow> string" where
  "enc_nat n = format_nat n @ '':''"

definition dec_nat :: "string \<Rightarrow> (nat \<times> string) option" where
  "dec_nat s =
     (case parse_digits 0 (takeWhile (\<lambda>c. c \<noteq> CHR '':'') s) of
        None \<Rightarrow> None
      | Some n \<Rightarrow>
          (case dropWhile (\<lambda>c. c \<noteq> CHR '':'') s of
             [] \<Rightarrow> None
           | c # rest \<Rightarrow> Some (n, rest)))"

definition enc_string :: "string \<Rightarrow> string" where
  "enc_string s = enc_nat (length s) @ s"

definition dec_string :: "string \<Rightarrow> (string \<times> string) option" where
  "dec_string s =
     (case dec_nat s of
        None \<Rightarrow> None
      | Some (n, rest) \<Rightarrow> if length rest < n then None else Some (take n rest, drop n rest))"

definition enc_int :: "int \<Rightarrow> string" where
  "enc_int i = (if i < 0 then CHR ''-'' else CHR ''+'') # enc_nat (nat \<bar>i\<bar>)"

definition dec_int :: "string \<Rightarrow> (int \<times> string) option" where
  "dec_int s =
     (case s of
        [] \<Rightarrow> None
      | c # cs \<Rightarrow>
          (case dec_nat cs of
             None \<Rightarrow> None
           | Some (n, rest) \<Rightarrow> Some (if c = CHR ''-'' then - int n else int n, rest)))"

definition enc_date :: "time option \<Rightarrow> string" where
  "enc_date d = (case d of None \<Rightarrow> ''N'' | Some t \<Rightarrow> CHR ''S'' # enc_int t)"

definition dec_date :: "string \<Rightarrow> (time option \<times> string) option" where
  "dec_date s =
     (case s of
        [] \<Rightarrow> None
      | c # cs \<Rightarrow>
          if c = CHR ''N'' then Some (None, cs)
          else (case dec_int cs of
                  None \<Rightarrow> None
                | Some (t, rest) \<Rightarrow> Some (Some t, rest)))"

definition enc_Claims :: "Claims \<Rightarrow> string" where
  "enc_Claims c =
     enc_nat (unat (Claims_UserID c)) @ enc_string (Claims_Email c) @
     enc_string (Claims_Role c) @ enc_date (Claims_ExpiresAt c) @
     enc_date (Claims_IssuedAt c) @ enc_string (Claims_Issuer c)"

definition dec_Claims :: "string \<Rightarrow> Claims option" where
  "dec_Claims s =
     (case dec_nat s of
        None \<Rightarrow> None
      | Some (uid, s1) \<Rightarrow>
     (case dec_string s1 of
        None \<Rightarrow> None
      | Some (email, s2) \<Rightarrow>
     (case dec_string s2 of
        None \<Rightarrow> None
      | Some (role, s3) \<Rightarrow>
     (case dec_date s3 of
        None \<Rightarrow> None
      | Some (exp, s4) \<Rightarrow>
     (case dec_date s4 of
        None \<Rightarrow> None
      | Some (iat, s5) \<Rightarrow>
     (case dec_string s5 of
        None \<Rightarrow> None
      | Some (iss, s6) \<Rightarrow>
          if s6 \<noteq> [] then None
          else Some \<lparr>Claims_UserID = word_of_nat uid, Claims_Email = email,
                     Claims_Role = role, Claims_ExpiresAt = exp, Claims_IssuedAt = iat,
                     Claims_Issuer = iss\<rparr>))))))"

definition lib_SignedString :: "string \<Rightarrow> Claims \<Rightarrow> string option" where
  "lib_SignedString key c = Some (enc_string key @ enc_Claims (json_Claims c))"

definition lib_ParseWithClaims :: "string \<Rightarrow> string \<Rightarrow> time \<Rightarrow> Claims option" where
  "lib_ParseWithClaims tok key now =
     (case dec_string tok of
        None \<Rightarrow> None
      | Some (k, rest) \<Rightarrow>
          if k \<noteq> key then None
          else (case dec_Claims rest of
                  None \<Rightarrow> None
                | Some c \<Rightarrow>
                    (case Claims_ExpiresAt c of
                       None \<Rightarrow> Some c
                     | Some E \<Rightarrow> if now < E then Some c else None)))"




text \<open>
  The two functions of package \<open>strings\<close> as they are on ASCII strings.
\<close>

definition ascii_space :: "char \<Rightarrow> bool" where
  "ascii_space c = (of_char c \<in> {9, 10, 11, 12, 13, 32 :: nat})"

definition ascii_TrimSpace :: "string \<Rightarrow> string" where
  "ascii_TrimSpace s = rev (dropWhile ascii_space (rev (dropWhile ascii_space s)))"

definition ascii_lower :: "char \<Rightarrow> char" where
  "ascii_lower c =
     (if 65 \<le> (of_char c :: nat) \<and> (of_char c :: nat) \<le> 90 then char_of (of_char c + 32 :: nat)
      else c)"

definition ascii_EqualFold :: "string \<Rightarrow> string \<Rightarrow> bool" where
  "ascii_EqualFold s t = (map ascii_lower s = map ascii_lower t)"

text \<open>
  An environment without faults. Its clock stands at 1700000000 s; its bcrypt accepts
  a password against the hash \<open>hash:\<close> followed by the password; its JWT library is
  the one above.
\<close>

definition env0 :: env where
  "env0 = \<lparr>exec_error = (\<lambda>n. False), last_id_error = (\<lambda>n. False),
           now_at = (\<lambda>n. 1700000000000000000),
           rand_code = (\<lambda>n. ''a1b2c3d4''),
           qrcode_Encode = (\<lambda>s. Some ''png''),
           template_error = (\<lambda>t d. None),
           time_Year = (\<lambda>t. 2023),
           bcrypt_CompareHashAndPassword =
             (\<lambda>h p. if h = ''hash:'' @ p then None else Some (Err ''mismatch'')),
           jwt_SignedString = lib_SignedString,
           jwt_ParseWithClaims = lib_ParseWithClaims,
           bcrypt_GenerateFromPassword = (\<lambda>n p. Inr (''hash:'' @ p)),
           strings_TrimSpace = ascii_TrimSpace,
           strings_EqualFold = ascii_EqualFold,
           error_text = (\<lambda>n. ''database is locked'')\<rparr>"


text \<open>The same environment, where only the statement number \<open>k\<close> fails.\<close>

definition env_fail :: "nat \<Rightarrow> env" where
  "env_fail k = env0\<lparr>exec_error := (\<lambda>n. n = k)\<rparr>"

text \<open>The same environment, whose clock shows \<open>t\<close> from its third reading on.\<close>

definition env_at :: "time \<Rightarrow> env" where
  "env_at t = env0\<lparr>now_at := (\<lambda>n. if n < 2 then 1700000000000000000 else t)\<rparr>"

definition ticket42 :: Ticket where
  "ticket42 = \<lparr>Ticket_ID = 42, Ticket_BookingID = 5, Ticket_TechnicianID = 7,
               Ticket_TrackingCode = ''0badcafe'', Ticket_QRCode = ''png'',
               Ticket_Status = ''diagnosing'', Ticket_Notes = [],
               Ticket_CreatedAt = 0, Ticket_UpdatedAt = 0\<rparr>"

definition booking5 :: Booking where
  "booking5 = \<lparr>Booking_ID = 5, Booking_CustomerID = 1, Booking_BicycleID = 0,
               Booking_ServiceID = 2, Booking_ScheduledAt = 0,
               Booking_Status = ''pending'', Booking_Notes = ''frenos'',
               Booking_CreatedAt = 0\<rparr>"

definition world0 :: world where
  "world0 = \<lparr>users = [user_ana], brands = [], models = [], bicycles = [],
             bookings = [booking5], tickets = [ticket42], ticket_status_history = [],
             users_seq = 1, brands_seq = 0, models_seq = 0, bicycles_seq = 0,
             bookings_seq = 5, tickets_seq = 42, history_seq = 0,
             n_exec = 0, n_now = 0, n_rand = 0\<rparr>"

definition claims_of :: "int64 \<Rightarrow> string \<Rightarrow> Claims" where
  "claims_of uid role =
     \<lparr>Claims_UserID = uid, Claims_Email = ''staff@example.com'', Claims_Role = role,
      Claims_ExpiresAt = Some 1700086400000000000,
      Claims_IssuedAt = Some 1700000000000000000, Claims_Issuer = ''BicicletApp''\<rparr>"

text \<open>
  A request of user \<open>uid\<close> with role \<open>role\<close> on route id \<open>ident\<close>, with form field
  \<open>status\<close>.
\<close>

definition status_request :: "int64 \<Rightarrow> string \<Rightarrow> string \<Rightarrow> string \<Rightarrow> request" where
  "status_request uid role ident status =
     \<lparr>url_id = ident, form_error = False,
      form_values = [(''status'', status), (''notes'', ''ok'')],
      cookies = [], headers = [], ctx_user = Some (claims_of uid role)\<rparr>"

definition login_request :: "string \<Rightarrow> string \<Rightarrow> request" where
  "login_request email password =
     \<lparr>url_id = [], form_error = False,
      form_values = [(''email'', email), (''password'', password)],
      cookies = [], headers = [], ctx_user = None\<rparr>"

definition cookie_request :: "string \<Rightarrow> request" where
  "cookie_request tok =
     \<lparr>url_id = [], form_error = False, form_values = [],
      cookies = [(''auth_token'', tok)], headers = [], ctx_user = None\<rparr>"

text \<open>
  The token that the library above signs for Ana with the secret of \<open>cfg0\<close>. Jose
  has registered from a form in Latin-1: the byte E9 of his email is not UTF-8.
\<close>

definition token_ana :: string where
  "token_ana = enc_string ''s3cret'' @ enc_Claims (json_Claims claims_ana)"

definition user_jose :: User where
  "user_jose = \<lparr>User_ID = 2, User_Email = ''jos'' @ [CHR 0xE9] @ ''@example.com'',
                User_PasswordHash = ''hash:secreto'', User_Name = ''Jose'', User_Phone = [],
                User_Role = ''customer'', User_CreatedAt = 0\<rparr>"

definition claims_jose :: Claims where
  "claims_jose = \<lparr>Claims_UserID = 2, Claims_Email = ''jos'' @ [CHR 0xE9] @ ''@example.com'',
                  Claims_Role = ''customer'',
                  Claims_ExpiresAt = Some 1700086400000000000,
                  Claims_IssuedAt = Some 1700000000000000000,
                  Claims_Issuer = ''BicicletApp''\<rparr>"

definition token_jose :: string where
  "token_jose = enc_string ''s3cret'' @ enc_Claims (json_Claims claims_jose)"


text \<open>
  Two handlers behind the middlewares: one answers with the role it was given, the
  other with the email.
\<close>

definition echo_handler :: "request \<Rightarrow> world \<Rightarrow> response \<times> world" where
  "echo_handler r w =
     (case ctx_user r of
        None \<Rightarrow> (panic, w)
      | Some c \<Rightarrow> (http_Redirect (''/ok/'' @ Claims_Role c) StatusSeeOther, w))"

definition echo_email_handler :: "request \<Rightarrow> world \<Rightarrow> response \<times> world" where
  "echo_email_handler r w =
     (case ctx_user r of
        None \<Rightarrow> (panic, w)
      | Some c \<Rightarrow> (http_Redirect (''/ok/'' @ Claims_Email c) StatusSeeOther, w))"

text \<open>
  A ticket as a handler hands it to \<open>TicketRepo.Create\<close>, with technician \<open>tech\<close>
  (0 on the walk-in path, which leaves the field unset).
\<close>

definition new_ticket :: "int64 \<Rightarrow> Ticket" where
  "new_ticket tech =
     \<lparr>Ticket_ID = 0, Ticket_BookingID = 5, Ticket_TechnicianID = tech,
      Ticket_TrackingCode = ''a1b2c3d4'', Ticket_QRCode = ''png'',
      Ticket_Status = ''received'', Ticket_Notes = [],
      Ticket_CreatedAt = zero_time, Ticket_UpdatedAt = zero_time\<rparr>"

section \<open>Properties of the repositories and handlers\<close>

subsection \<open>Repository operations and the route of the status update\<close>

lemmas status_defs =
  TicketStatusReceived_def TicketStatusDiagnosing_def TicketStatusInProgress_def
  TicketStatusWaitingParts_def TicketStatusReady_def TicketStatusDelivered_def

lemmas role_defs = RoleCustomer_def RoleTechnician_def RoleAdmin_def

lemmas http_defs =
  StatusSeeOther_def StatusBadRequest_def StatusUnauthorized_def StatusForbidden_def
  StatusNotFound_def StatusInternalServerError_def http_Redirect_def http_Error_def
  http_NotFound_def panic_def

lemma role_loop_mem: "role_loop role xs \<longleftrightarrow> role \<in> set xs"
  by (induction xs) auto

lemma CreateStatusHistory_eq:
  "CreateStatusHistory e h w =
     (if exec_error e (n_exec w) \<or> history_seq w = 9223372036854775807
      then (Some (Err ''failed to create ticket status history''),
            w\<lparr>n_now := Suc (n_now w), n_exec := Suc (n_exec w)\<rparr>)
      else (None,
            w\<lparr>n_now := Suc (n_now w), n_exec := Suc (n_exec w),
              ticket_status_history :=
                ticket_status_history w @
                [\<lparr>row_id = history_seq w + 1, row_ticket_id = History_TicketID h,
                  row_status = History_Status h,
                  row_changed_by = (if History_ChangedBy h \<noteq> 0
                                    then Some (History_ChangedBy h) else None),
                  row_notes = History_Notes h, row_created_at = now_at e (n_now w)\<rparr>],
              history_seq := history_seq w + 1\<rparr>))"
  by (simp add: CreateStatusHistory_def time_Now_def ExecContext_def sql_insert_history_def
      Let_def)

lemma UpdateStatus_eq:
  "TicketRepo_UpdateStatus e i status changedBy notes w =
     (if exec_error e (n_exec w)
      then (Some (Err ''failed to update ticket status''),
            w\<lparr>n_now := Suc (n_now w), n_exec := Suc (n_exec w)\<rparr>)
      else (None,
            snd (CreateStatusHistory e
                   \<lparr>History_ID = 0, History_TicketID = i, History_Status = status,
                     History_ChangedBy = changedBy, History_Notes = notes,
                     History_CreatedAt = now_at e (n_now w)\<rparr>
                   (w\<lparr>n_now := Suc (n_now w), n_exec := Suc (n_exec w),
                      tickets :=
                        map (\<lambda>t. if Ticket_ID t = i
                                 then t\<lparr>Ticket_Status := status,
                                        Ticket_UpdatedAt := now_at e (n_now w)\<rparr>
                                 else t) (tickets w)\<rparr>))))"
  by (simp add: TicketRepo_UpdateStatus_def time_Now_def ExecContext_def
      sql_update_ticket_status_def Let_def split: prod.splits)

lemma roleMiddleware_eq:
  "getUserClaims r = Some claims \<Longrightarrow>
   roleMiddleware allowedRoles next r w =
     (if Claims_Role claims \<in> set allowedRoles \<or> Claims_Role claims = RoleAdmin
      then next r w
      else (http_Error ''Forbidden'' StatusForbidden, w))"
  by (simp add: roleMiddleware_def role_loop_mem)

lemma technician_group_eq:
  "getUserClaims r = Some c \<Longrightarrow>
   technician_group handler r w =
     (if Claims_Role c = RoleTechnician \<or> Claims_Role c = RoleAdmin then handler r w
      else (http_Error ''Forbidden'' StatusForbidden, w))"
  by (simp add: technician_group_def roleMiddleware_eq)

lemma GetByID_eq:
  "TicketRepo_GetByID e i w =
     ((if exec_error e (n_exec w) then (None, Some (Err ''failed to get ticket''))
       else (find (\<lambda>t. Ticket_ID t = i) (tickets w), None)),
      w\<lparr>n_exec := Suc (n_exec w)\<rparr>)"
  by (simp add: TicketRepo_GetByID_def QueryRowContext_def split: option.splits)

lemma GetByID_found:
  assumes "TicketRepo_GetByID e i w = ((Some t, None), w1)"
  shows "w1 = w\<lparr>n_exec := Suc (n_exec w)\<rparr>"
    and "find (\<lambda>t. Ticket_ID t = i) (tickets w) = Some t"
    and "\<not> exec_error e (n_exec w)"
  using assms by (auto simp add: GetByID_eq split: if_splits)

lemma transition_valid_table:
  "transition_valid cur status \<longleftrightarrow>
     (cur, status) \<in> set spec_transition_table \<or> status = cur"
  by (auto simp add: transition_valid_def transition_switch_def spec_transition_table_def
      status_defs)

lemma handleUpdateTicketStatus_found:
  assumes "\<not> form_error r" and "getUserClaims r = Some c"
      and "TicketRepo_GetByID e (fst (ParseInt (url_id r))) w = ((Some t, None), w1)"
  shows "handleUpdateTicketStatus e r w =
     (if Claims_Role c = RoleTechnician \<and> Ticket_TechnicianID t \<noteq> Claims_UserID c
      then (http_Error ''Forbidden: You are not assigned to this ticket'' StatusForbidden, w1)
      else if Claims_Role c = RoleTechnician \<and>
              \<not> transition_valid (Ticket_Status t) (FormValue r ''status'')
      then (http_Redirect
              (''/tickets/'' @ FormatInt (fst (ParseInt (url_id r))) @
               ''?error=invalid_transition'') StatusSeeOther, w1)
      else if exec_error e (n_exec w1)
      then (http_Redirect
              (''/tickets/'' @ FormatInt (fst (ParseInt (url_id r))) @
               ''?error=update_failed'') StatusSeeOther,
            snd (TicketRepo_UpdateStatus e (fst (ParseInt (url_id r)))
                   (FormValue r ''status'') (Claims_UserID c) (FormValue r ''notes'') w1))
      else (http_Redirect (''/tickets/'' @ url_id r) StatusSeeOther,
            snd (TicketRepo_UpdateStatus e (fst (ParseInt (url_id r)))
                   (FormValue r ''status'') (Claims_UserID c) (FormValue r ''notes'') w1)))"
  using assms
  by (simp add: handleUpdateTicketStatus_def Let_def UpdateStatus_eq)

lemma success_redirect_distinct:
  assumes "CHR ''?'' \<notin> set s"
  shows "''/tickets/'' @ s \<noteq> ''/tickets/'' @ x @ CHR ''?'' # y"
proof
  assume "''/tickets/'' @ s = ''/tickets/'' @ x @ CHR ''?'' # y"
  then have "s = x @ CHR ''?'' # y" by simp
  then have "CHR ''?'' \<in> set s" by simp
  with assms show False by simp
qed

lemma UpdateStatus_tickets:
  "tickets (snd (TicketRepo_UpdateStatus e i status changedBy notes w)) =
     (if exec_error e (n_exec w) then tickets w
      else map (\<lambda>t. if Ticket_ID t = i
                    then t\<lparr>Ticket_Status := status, Ticket_UpdatedAt := now_at e (n_now w)\<rparr>
                    else t) (tickets w))"
  by (simp add: UpdateStatus_eq CreateStatusHistory_eq)

lemma UpdateStatus_history:
  "ticket_status_history (snd (TicketRepo_UpdateStatus e i status changedBy notes w)) =
     (if exec_error e (n_exec w) \<or> exec_error e (Suc (n_exec w)) \<or>
         history_seq w = 9223372036854775807
      then ticket_status_history w
      else ticket_status_history w @
           [\<lparr>row_id = history_seq w + 1, row_ticket_id = i, row_status = status,
             row_changed_by = (if changedBy \<noteq> 0 then Some changedBy else None),
             row_notes = notes, row_created_at = now_at e (Suc (n_now w))\<rparr>])"
  by (simp add: UpdateStatus_eq CreateStatusHistory_eq)

subsection \<open>The role gate\<close>

text \<open>
  C3. A request that carries claims is passed on to the handler behind the role gate
  exactly when the role of the claims is one of the allowed roles or is admin;
  otherwise the answer is 403 Forbidden and the state is the one before. So a customer
  is turned away from a route for technician and admin, and an admin is let in.
\<close>

theorem roleMiddleware_authorizes:
  "getUserClaims r = Some claims \<Longrightarrow>
   roleMiddleware allowedRoles next r w =
     (if Claims_Role claims \<in> set allowedRoles \<or> Claims_Role claims = RoleAdmin
      then next r w
      else (http_Error ''Forbidden'' StatusForbidden, w))"
  by (simp add: roleMiddleware_def role_loop_mem)

theorem roleMiddleware_authorizes_witness:
  "getUserClaims (status_request 3 ''customer'' ''42'' ''ready'') =
     Some (claims_of 3 ''customer'') \<and>
   roleMiddleware [RoleTechnician, RoleAdmin] echo_handler
     (status_request 3 ''customer'' ''42'' ''ready'') world0 =
     (http_Error ''Forbidden'' StatusForbidden, world0) \<and>
   getUserClaims (status_request 9 ''admin'' ''42'' ''ready'') =
     Some (claims_of 9 ''admin'') \<and>
   roleMiddleware [RoleTechnician, RoleAdmin] echo_handler
     (status_request 9 ''admin'' ''42'' ''ready'') world0 =
     (http_Redirect ''/ok/admin'' StatusSeeOther, world0)"
proof -
  have c: "getUserClaims (status_request 3 ''customer'' ''42'' ''ready'') =
             Some (claims_of 3 ''customer'')"
    by (simp add: getUserClaims_def status_request_def)
  have a: "getUserClaims (status_request 9 ''admin'' ''42'' ''ready'') =
             Some (claims_of 9 ''admin'')"
    by (simp add: getUserClaims_def status_request_def)
  have f1: "roleMiddleware [RoleTechnician, RoleAdmin] echo_handler
              (status_request 3 ''customer'' ''42'' ''ready'') world0 =
              (http_Error ''Forbidden'' StatusForbidden, world0)"
    using roleMiddleware_authorizes [OF c, of "[RoleTechnician, RoleAdmin]" echo_handler world0]
    by (simp add: claims_of_def role_defs)
  have f2: "roleMiddleware [RoleTechnician, RoleAdmin] echo_handler
              (status_request 9 ''admin'' ''42'' ''ready'') world0 =
              (http_Redirect ''/ok/admin'' StatusSeeOther, world0)"
    using roleMiddleware_authorizes [OF a, of "[RoleTechnician, RoleAdmin]" echo_handler world0]
    by (simp add: claims_of_def role_defs echo_handler_def status_request_def)
  from c a f1 f2 show ?thesis by blast
qed

subsection \<open>The decision of a status update\<close>

lemma role_consts_distinct:
  "RoleAdmin \<noteq> RoleTechnician" "RoleTechnician \<noteq> RoleAdmin"
  by (simp_all add: role_defs)

lemma spec_update_permitted_code:
  "spec_update_permitted role assigned cur status \<longleftrightarrow>
     role = RoleAdmin \<or>
     (role = RoleTechnician \<and> assigned \<and> transition_valid cur status)"
  by (simp add: spec_update_permitted_def transition_valid_table role_defs)

lemma list_all_set_status:
  "list_all (\<lambda>x. Ticket_ID x = i \<longrightarrow> Ticket_Status x = s)
     (map (\<lambda>t. if Ticket_ID t = i then t\<lparr>Ticket_Status := s, Ticket_UpdatedAt := n\<rparr> else t) ts)"
  by (induction ts) simp_all

lemma UpdateStatus_sets_status:
  "\<not> exec_error e (n_exec w) \<Longrightarrow>
   list_all (\<lambda>x. Ticket_ID x = i \<longrightarrow> Ticket_Status x = status)
     (tickets (snd (TicketRepo_UpdateStatus e i status changedBy notes w)))"
  by (simp add: UpdateStatus_tickets list_all_set_status)

lemma update_route_eq:
  assumes "\<not> form_error r" and "getUserClaims r = Some c"
      and "fst (ParseInt (url_id r)) = ident"
      and "TicketRepo_GetByID e ident w = ((Some t, None), w1)"
  shows "technician_group (handleUpdateTicketStatus e) r w =
     (if Claims_Role c \<noteq> RoleTechnician \<and> Claims_Role c \<noteq> RoleAdmin
      then (http_Error ''Forbidden'' StatusForbidden, w)
      else if Claims_Role c = RoleTechnician \<and> Ticket_TechnicianID t \<noteq> Claims_UserID c
      then (http_Error ''Forbidden: You are not assigned to this ticket'' StatusForbidden, w1)
      else if Claims_Role c = RoleTechnician \<and>
              \<not> transition_valid (Ticket_Status t) (FormValue r ''status'')
      then (http_Redirect (''/tickets/'' @ FormatInt ident @ ''?error=invalid_transition'')
              StatusSeeOther, w1)
      else if exec_error e (n_exec w1)
      then (http_Redirect (''/tickets/'' @ FormatInt ident @ ''?error=update_failed'')
              StatusSeeOther,
            snd (TicketRepo_UpdateStatus e ident (FormValue r ''status'') (Claims_UserID c)
                   (FormValue r ''notes'') w1))
      else (http_Redirect (''/tickets/'' @ url_id r) StatusSeeOther,
            snd (TicketRepo_UpdateStatus e ident (FormValue r ''status'') (Claims_UserID c)
                   (FormValue r ''notes'') w1)))"
proof -
  have i: "fst (ParseInt (url_id r)) = ident"
    using assms(3) by simp
  have g: "TicketRepo_GetByID e (fst (ParseInt (url_id r))) w = ((Some t, None), w1)"
    using assms(4) i by simp
  note h = handleUpdateTicketStatus_found [OF assms(1) assms(2) g, unfolded i]
  note t = technician_group_eq [OF assms(2), of "handleUpdateTicketStatus e" w]
  consider (admin) "Claims_Role c = RoleAdmin"
    | (tech) "Claims_Role c = RoleTechnician"
    | (other) "Claims_Role c \<noteq> RoleAdmin" "Claims_Role c \<noteq> RoleTechnician"
    by blast
  then show ?thesis
  proof cases
    case admin
    then have "Claims_Role c \<noteq> RoleTechnician"
      using role_consts_distinct by simp
    with admin show ?thesis
      by (simp only: t h if_True if_False simp_thms)
  next
    case tech
    then show ?thesis
      by (simp only: t h if_True if_False simp_thms)
  next
    case other
    then show ?thesis
      by (simp only: t if_True if_False simp_thms)
  qed
qed

lemmas eval_defs =
  technician_group_def roleMiddleware_def getUserClaims_def handleUpdateTicketStatus_def
  TicketRepo_GetByID_def QueryRowContext_def TicketRepo_UpdateStatus_def
  CreateStatusHistory_def ExecContext_def time_Now_def sql_update_ticket_status_def
  sql_insert_history_def sql_insert_ticket_def sql_update_booking_status_def
  TicketRepo_Create_def BookingRepo_GetByID_def BookingRepo_UpdateStatus_def
  handleCreateTicket_def generateTrackingCode_def
  FormValue_def ParseInt_def digit_val_def FormatInt_def Itoa_def format_nat.simps
  digit_char_def transition_valid_def transition_switch_def
  status_defs role_defs http_defs BookingStatusConfirmed_def BookingStatusPending_def
  env0_def env_fail_def env_at_def world0_def ticket42_def booking5_def user_ana_def
  cfg0_def claims_of_def status_request_def zero_time_def Let_def

text \<open>
  C1 (amended). Take a status-update request by an actor with claims, on a ticket that
  the lookup finds under the id that \<open>ParseInt\<close> reads from the route (the route
  parameter is a segment of the path and holds no question mark). Let the condition
  on role, assignment and statuses be the specification's: the actor is admin, or is a
  technician to whom the ticket is assigned and the pair of statuses is in the
  transition table or the status stays the same.
  \<^item> The answer is the redirect to the ticket page exactly when the condition holds
    and the UPDATE statement does not fail; then every ticket with that id has the
    requested status.
  \<^item> When the condition holds and the UPDATE fails, the answer is the redirect that
    carries \<open>update_failed\<close>, and the tickets and the history are as before.
  \<^item> A technician to whom the ticket is assigned and whose request does not meet
    the condition is answered with the redirect that carries \<open>invalid_transition\<close>,
    and the tickets and the history are as before.
  \<^item> A technician to whom the ticket is not assigned is answered with 403 Forbidden
    by the handler, and an actor who is neither technician nor admin with 403 Forbidden
    by the role gate; nothing is written.
\<close>

theorem status_update_decision:
  assumes "\<not> form_error r" and "getUserClaims r = Some c"
      and "fst (ParseInt (url_id r)) = ident"
      and "TicketRepo_GetByID e ident w = ((Some t, None), w1)"
      and "CHR ''?'' \<notin> set (url_id r)"
  shows "(fst (technician_group (handleUpdateTicketStatus e) r w) =
            http_Redirect (''/tickets/'' @ url_id r) StatusSeeOther
          \<longleftrightarrow> spec_update_permitted (Claims_Role c) (Ticket_TechnicianID t = Claims_UserID c)
                (Ticket_Status t) (FormValue r ''status'') \<and>
              \<not> exec_error e (n_exec w1)) \<and>
         (spec_update_permitted (Claims_Role c) (Ticket_TechnicianID t = Claims_UserID c)
            (Ticket_Status t) (FormValue r ''status'') \<and>
          \<not> exec_error e (n_exec w1) \<longrightarrow>
          list_all (\<lambda>x. Ticket_ID x = ident \<longrightarrow> Ticket_Status x = FormValue r ''status'')
            (tickets (snd (technician_group (handleUpdateTicketStatus e) r w)))) \<and>
         (spec_update_permitted (Claims_Role c) (Ticket_TechnicianID t = Claims_UserID c)
            (Ticket_Status t) (FormValue r ''status'') \<and>
          exec_error e (n_exec w1) \<longrightarrow>
          fst (technician_group (handleUpdateTicketStatus e) r w) =
            http_Redirect (''/tickets/'' @ FormatInt ident @ ''?error=update_failed'')
              StatusSeeOther \<and>
          tickets (snd (technician_group (handleUpdateTicketStatus e) r w)) = tickets w \<and>
          ticket_status_history (snd (technician_group (handleUpdateTicketStatus e) r w)) =
            ticket_status_history w) \<and>
         (Claims_Role c = RoleTechnician \<and> Ticket_TechnicianID t = Claims_UserID c \<and>
          \<not> spec_update_permitted (Claims_Role c) (Ticket_TechnicianID t = Claims_UserID c)
              (Ticket_Status t) (FormValue r ''status'') \<longrightarrow>
          technician_group (handleUpdateTicketStatus e) r w =
            (http_Redirect (''/tickets/'' @ FormatInt ident @ ''?error=invalid_transition'')
               StatusSeeOther, w1) \<and>
          tickets w1 = tickets w \<and> ticket_status_history w1 = ticket_status_history w) \<and>
         (Claims_Role c = RoleTechnician \<and> Ticket_TechnicianID t \<noteq> Claims_UserID c \<longrightarrow>
          technician_group (handleUpdateTicketStatus e) r w =
            (http_Error ''Forbidden: You are not assigned to this ticket'' StatusForbidden, w1) \<and>
          tickets w1 = tickets w \<and> ticket_status_history w1 = ticket_status_history w) \<and>
         (Claims_Role c \<noteq> RoleTechnician \<and> Claims_Role c \<noteq> RoleAdmin \<longrightarrow>
          technician_group (handleUpdateTicketStatus e) r w =
            (http_Error ''Forbidden'' StatusForbidden, w))"
proof -
  let ?run = "technician_group (handleUpdateTicketStatus e) r w"
  let ?ok = "http_Redirect (''/tickets/'' @ url_id r) StatusSeeOther"
  let ?bad = "http_Redirect (''/tickets/'' @ FormatInt ident @ ''?error=invalid_transition'')
                StatusSeeOther"
  let ?failed = "http_Redirect (''/tickets/'' @ FormatInt ident @ ''?error=update_failed'')
                   StatusSeeOther"
  let ?U = "snd (TicketRepo_UpdateStatus e ident (FormValue r ''status'') (Claims_UserID c)
                   (FormValue r ''notes'') w1)"
  let ?P = "spec_update_permitted (Claims_Role c) (Ticket_TechnicianID t = Claims_UserID c)
              (Ticket_Status t) (FormValue r ''status'')"
  note eq = update_route_eq [OF assms(1-4)]
  have w1: "w1 = w\<lparr>n_exec := Suc (n_exec w)\<rparr>"
    using GetByID_found(1) [OF assms(4)] .
  have neq: "?bad \<noteq> ?ok"
    using success_redirect_distinct [OF assms(5), of "FormatInt ident" "''error=invalid_transition''"]
    by (simp add: http_Redirect_def)
  have neq2: "?failed \<noteq> ?ok"
    using success_redirect_distinct [OF assms(5), of "FormatInt ident" "''error=update_failed''"]
    by (simp add: http_Redirect_def)
  have err: "\<And>m k. http_Error m k \<noteq> ?ok"
    by (simp add: http_Redirect_def http_Error_def)
  have P: "?P \<longleftrightarrow> Claims_Role c = RoleAdmin \<or>
           (Claims_Role c = RoleTechnician \<and> Ticket_TechnicianID t = Claims_UserID c \<and>
            transition_valid (Ticket_Status t) (FormValue r ''status''))"
    by (rule spec_update_permitted_code)
  have unchanged: "exec_error e (n_exec w1) \<Longrightarrow>
                   tickets ?U = tickets w \<and> ticket_status_history ?U = ticket_status_history w"
    by (simp add: UpdateStatus_tickets UpdateStatus_history) (simp add: w1)
  have upd: "?run = (if exec_error e (n_exec w1) then (?failed, ?U) else (?ok, ?U)) \<Longrightarrow>
             (fst ?run = ?ok \<longleftrightarrow> \<not> exec_error e (n_exec w1)) \<and>
             (\<not> exec_error e (n_exec w1) \<longrightarrow>
              list_all (\<lambda>x. Ticket_ID x = ident \<longrightarrow> Ticket_Status x = FormValue r ''status'')
                (tickets (snd ?run))) \<and>
             (exec_error e (n_exec w1) \<longrightarrow>
              fst ?run = ?failed \<and> tickets (snd ?run) = tickets w \<and>
              ticket_status_history (snd ?run) = ticket_status_history w)"
    using neq2 unchanged
      UpdateStatus_sets_status [of e w1 ident "FormValue r ''status''"
        "Claims_UserID c" "FormValue r ''notes''"]
    by (cases "exec_error e (n_exec w1)") simp_all
  consider (admin) "Claims_Role c = RoleAdmin"
    | (tech) "Claims_Role c = RoleTechnician"
    | (other) "Claims_Role c \<noteq> RoleAdmin" "Claims_Role c \<noteq> RoleTechnician"
    by blast
  then show ?thesis
  proof cases
    case admin
    then have nt: "Claims_Role c \<noteq> RoleTechnician"
      using role_consts_distinct by simp
    have run: "?run = (if exec_error e (n_exec w1) then (?failed, ?U) else (?ok, ?U))"
      using eq admin nt by simp
    have "?P" using P admin by simp
    with upd [OF run] nt admin show ?thesis by simp
  next
    case tech
    then have na: "Claims_Role c \<noteq> RoleAdmin"
      using role_consts_distinct by simp
    show ?thesis
    proof (cases "Ticket_TechnicianID t = Claims_UserID c")
      case False
      have run: "?run = (http_Error ''Forbidden: You are not assigned to this ticket''
                           StatusForbidden, w1)"
        using eq tech False by simp
      have "\<not> ?P" using P na False by simp
      then show ?thesis using run err False tech by (simp add: w1)
    next
      case True
      show ?thesis
      proof (cases "transition_valid (Ticket_Status t) (FormValue r ''status'')")
        case valid: True
        have run: "?run = (if exec_error e (n_exec w1) then (?failed, ?U) else (?ok, ?U))"
          using eq tech True valid by simp
        have "?P" using P tech True valid by simp
        with upd [OF run] True tech show ?thesis by simp
      next
        case invalid: False
        have run: "?run = (?bad, w1)"
          using eq tech True invalid by simp
        have "\<not> ?P" using P na True invalid by simp
        then show ?thesis using run neq True tech by (simp add: w1)
      qed
    qed
  next
    case other
    have run: "?run = (http_Error ''Forbidden'' StatusForbidden, w)"
      using eq other by simp
    have "\<not> ?P" using P other by simp
    then show ?thesis using run err other by simp
  qed
qed

text \<open>
  C1, counterexamples to the claim as stated. First, technician 8 asks for ready on
  ticket 42, which is assigned to technician 7: the request does not meet the
  condition, and the answer is 403 Forbidden, not the redirect that carries
  \<open>invalid_transition\<close>. Second, technician 7 asks for ready on ticket 42, which is
  diagnosing, while the second statement of the request, the UPDATE, fails: the
  condition holds, but the operation does not succeed; the answer is the redirect that
  carries \<open>update_failed\<close>, and the ticket is still diagnosing.
\<close>

theorem status_update_rejection_counterexample:
  "Claims_Role (claims_of 8 ''technician'') = RoleTechnician \<and>
   \<not> spec_update_permitted ''technician'' (Ticket_TechnicianID ticket42 = 8)
       ''diagnosing'' ''ready'' \<and>
   fst (technician_group (handleUpdateTicketStatus env0)
          (status_request 8 ''technician'' ''42'' ''ready'') world0) =
     http_Error ''Forbidden: You are not assigned to this ticket'' StatusForbidden \<and>
   http_Error ''Forbidden: You are not assigned to this ticket'' StatusForbidden \<noteq>
     http_Redirect ''/tickets/42?error=invalid_transition'' StatusSeeOther \<and>
   spec_update_permitted ''technician'' (Ticket_TechnicianID ticket42 = 7)
     ''diagnosing'' ''ready'' \<and>
   fst (technician_group (handleUpdateTicketStatus (env_fail 1))
          (status_request 7 ''technician'' ''42'' ''ready'') world0) =
     http_Redirect ''/tickets/42?error=update_failed'' StatusSeeOther \<and>
   http_Redirect ''/tickets/42?error=update_failed'' StatusSeeOther \<noteq>
     http_Redirect ''/tickets/42'' StatusSeeOther \<and>
   map Ticket_Status
     (tickets (snd (technician_group (handleUpdateTicketStatus (env_fail 1))
                      (status_request 7 ''technician'' ''42'' ''ready'') world0))) =
     [''diagnosing'']"
  by (simp add: eval_defs spec_update_permitted_def spec_transition_table_def)

text \<open>
  C1, witness: technician 7, to whom ticket 42 (diagnosing) is assigned, asks for
  ready and gets it; asks for received, which the table does not allow from
  diagnosing, and is answered with \<open>invalid_transition\<close>; asks for ready while the
  UPDATE fails and is answered with \<open>update_failed\<close>. Technician 8 is answered
  with 403 by the handler, and customer 3 by the role gate.
\<close>

theorem status_update_decision_witness:
  "\<not> form_error (status_request 7 ''technician'' ''42'' ''ready'') \<and>
   getUserClaims (status_request 7 ''technician'' ''42'' ''ready'') =
     Some (claims_of 7 ''technician'') \<and>
   fst (ParseInt (url_id (status_request 7 ''technician'' ''42'' ''ready''))) = 42 \<and>
   CHR ''?'' \<notin> set (url_id (status_request 7 ''technician'' ''42'' ''ready'')) \<and>
   TicketRepo_GetByID env0 42 world0 = ((Some ticket42, None), world0\<lparr>n_exec := 1\<rparr>) \<and>
   \<not> exec_error env0 (n_exec (world0\<lparr>n_exec := 1\<rparr>)) \<and>
   spec_update_permitted ''technician'' True ''diagnosing'' ''ready'' \<and>
   fst (technician_group (handleUpdateTicketStatus env0)
          (status_request 7 ''technician'' ''42'' ''ready'') world0) =
     http_Redirect ''/tickets/42'' StatusSeeOther \<and>
   list_all (\<lambda>x. Ticket_ID x = 42 \<longrightarrow> Ticket_Status x = ''ready'')
     (tickets (snd (technician_group (handleUpdateTicketStatus env0)
                      (status_request 7 ''technician'' ''42'' ''ready'') world0))) \<and>
   \<not> spec_update_permitted ''technician'' True ''diagnosing'' ''received'' \<and>
   technician_group (handleUpdateTicketStatus env0)
     (status_request 7 ''technician'' ''42'' ''received'') world0 =
     (http_Redirect ''/tickets/42?error=invalid_transition'' StatusSeeOther,
      world0\<lparr>n_exec := 1\<rparr>) \<and>
   TicketRepo_GetByID (env_fail 1) 42 world0 =
     ((Some ticket42, None), world0\<lparr>n_exec := 1\<rparr>) \<and>
   exec_error (env_fail 1) (n_exec (world0\<lparr>n_exec := 1\<rparr>)) \<and>
   fst (technician_group (handleUpdateTicketStatus (env_fail 1))
          (status_request 7 ''technician'' ''42'' ''ready'') world0) =
     http_Redirect ''/tickets/42?error=update_failed'' StatusSeeOther \<and>
   tickets (snd (technician_group (handleUpdateTicketStatus (env_fail 1))
                   (status_request 7 ''technician'' ''42'' ''ready'') world0)) =
     tickets world0 \<and>
   Ticket_TechnicianID ticket42 \<noteq> Claims_UserID (claims_of 8 ''technician'') \<and>
   technician_group (handleUpdateTicketStatus env0)
     (status_request 8 ''technician'' ''42'' ''ready'') world0 =
     (http_Error ''Forbidden: You are not assigned to this ticket'' StatusForbidden,
      world0\<lparr>n_exec := 1\<rparr>) \<and>
   technician_group (handleUpdateTicketStatus env0)
     (status_request 3 ''customer'' ''42'' ''ready'') world0 =
     (http_Error ''Forbidden'' StatusForbidden, world0)"
proof -
  let ?r = "status_request 7 ''technician'' ''42'' ''ready''"
  let ?r2 = "status_request 7 ''technician'' ''42'' ''received''"
  let ?r8 = "status_request 8 ''technician'' ''42'' ''ready''"
  let ?r3 = "status_request 3 ''customer'' ''42'' ''ready''"
  have h1: "\<And>u ro st. \<not> form_error (status_request u ro ''42'' st)"
    by (simp add: status_request_def)
  have h2: "\<And>u ro st. getUserClaims (status_request u ro ''42'' st) = Some (claims_of u ro)"
    by (simp add: status_request_def getUserClaims_def)
  have h3: "\<And>u ro st. fst (ParseInt (url_id (status_request u ro ''42'' st))) = 42"
    by (simp add: status_request_def ParseInt_def digit_val_def)
  have hq: "\<And>u ro st. CHR ''?'' \<notin> set (url_id (status_request u ro ''42'' st))"
    by (simp add: status_request_def)
  have h4: "TicketRepo_GetByID env0 42 world0 = ((Some ticket42, None), world0\<lparr>n_exec := 1\<rparr>)"
    by (simp add: TicketRepo_GetByID_def QueryRowContext_def env0_def world0_def ticket42_def)
  have h4f: "TicketRepo_GetByID (env_fail 1) 42 world0 =
               ((Some ticket42, None), world0\<lparr>n_exec := 1\<rparr>)"
    by (simp add: TicketRepo_GetByID_def QueryRowContext_def env_fail_def env0_def world0_def
        ticket42_def)
  have h5: "\<not> exec_error env0 (n_exec (world0\<lparr>n_exec := 1\<rparr>))"
    by (simp add: env0_def)
  have h5f: "exec_error (env_fail 1) (n_exec (world0\<lparr>n_exec := 1\<rparr>))"
    by (simp add: env_fail_def env0_def)
  have p: "spec_update_permitted ''technician'' True ''diagnosing'' ''ready''"
    by (simp add: spec_update_permitted_def spec_transition_table_def)
  have np: "\<not> spec_update_permitted ''technician'' True ''diagnosing'' ''received''"
    by (simp add: spec_update_permitted_def spec_transition_table_def)
  have v: "\<And>u ro. Claims_Role (claims_of u ro) = ro"
          "\<And>u ro. Claims_UserID (claims_of u ro) = u"
          "Ticket_TechnicianID ticket42 = 7"
          "Ticket_Status ticket42 = ''diagnosing''"
          "\<And>u ro st. FormValue (status_request u ro ''42'' st) ''status'' = st"
          "\<And>u ro st. url_id (status_request u ro ''42'' st) = ''42''"
          "FormatInt 42 = ''42''"
    by (simp_all add: claims_of_def ticket42_def status_request_def FormValue_def
        FormatInt_def Itoa_def format_nat.simps digit_char_def)
  have a: "fst (technician_group (handleUpdateTicketStatus env0) ?r world0) =
             http_Redirect ''/tickets/42'' StatusSeeOther \<and>
           list_all (\<lambda>x. Ticket_ID x = 42 \<longrightarrow> Ticket_Status x = ''ready'')
             (tickets (snd (technician_group (handleUpdateTicketStatus env0) ?r world0)))"
    using status_update_decision [OF h1 h2 h3 h4 hq, of 7 "''technician''" "''ready''"] p h5
    unfolding v by simp
  have b: "technician_group (handleUpdateTicketStatus env0) ?r2 world0 =
             (http_Redirect ''/tickets/42?error=invalid_transition'' StatusSeeOther,
              world0\<lparr>n_exec := 1\<rparr>)"
    using status_update_decision [OF h1 h2 h3 h4 hq, of 7 "''technician''" "''received''"] np
    unfolding v by (simp add: RoleTechnician_def)
  have c: "fst (technician_group (handleUpdateTicketStatus (env_fail 1)) ?r world0) =
             http_Redirect ''/tickets/42?error=update_failed'' StatusSeeOther \<and>
           tickets (snd (technician_group (handleUpdateTicketStatus (env_fail 1)) ?r world0)) =
             tickets world0"
    using status_update_decision [OF h1 h2 h3 h4f hq, of 7 "''technician''" "''ready''"] p h5f
    unfolding v by simp
  have n8: "Ticket_TechnicianID ticket42 \<noteq> Claims_UserID (claims_of 8 ''technician'')"
    by (simp add: v)
  have d: "technician_group (handleUpdateTicketStatus env0) ?r8 world0 =
             (http_Error ''Forbidden: You are not assigned to this ticket'' StatusForbidden,
              world0\<lparr>n_exec := 1\<rparr>)"
    using status_update_decision [OF h1 h2 h3 h4 hq, of 8 "''technician''" "''ready''"]
    unfolding v by (simp add: RoleTechnician_def)
  have f: "technician_group (handleUpdateTicketStatus env0) ?r3 world0 =
             (http_Error ''Forbidden'' StatusForbidden, world0)"
    using status_update_decision [OF h1 h2 h3 h4 hq, of 3 "''customer''" "''ready''"]
    unfolding v by (simp add: role_defs)
  from h1 [of 7 "''technician''" "''ready''"] h2 [of 7 "''technician''" "''ready''"]
    h3 [of 7 "''technician''" "''ready''"] hq [of 7 "''technician''" "''ready''"]
    h4 h5 p a np b h4f h5f c n8 d f
  show ?thesis by blast
qed

subsection \<open>A technician who is not assigned\<close>

text \<open>
  C5. A status-update request of a technician on a ticket whose technician is someone
  else is answered with 403 Forbidden (\<open>http.Error\<close>, not the redirect of an
  invalid transition); the state after it is the one after the lookup, so the tickets
  and the history are as before.
\<close>

theorem unassigned_technician_forbidden:
  assumes "\<not> form_error r" and "getUserClaims r = Some c"
      and "Claims_Role c = RoleTechnician"
      and "TicketRepo_GetByID e (fst (ParseInt (url_id r))) w = ((Some t, None), w1)"
      and "Ticket_TechnicianID t \<noteq> Claims_UserID c"
  shows "technician_group (handleUpdateTicketStatus e) r w =
           (http_Error ''Forbidden: You are not assigned to this ticket'' StatusForbidden, w1) \<and>
         tickets w1 = tickets w \<and>
         ticket_status_history w1 = ticket_status_history w \<and>
         reply (http_Error ''Forbidden: You are not assigned to this ticket'' StatusForbidden) \<noteq>
           Redirect (''/tickets/'' @ FormatInt (fst (ParseInt (url_id r))) @
                     ''?error=invalid_transition'') StatusSeeOther"
proof -
  have w1: "w1 = w\<lparr>n_exec := Suc (n_exec w)\<rparr>"
    using GetByID_found(1) [OF assms(4)] .
  have "technician_group (handleUpdateTicketStatus e) r w = handleUpdateTicketStatus e r w"
    using technician_group_eq [OF assms(2)] assms(3) by simp
  also have "\<dots> = (http_Error ''Forbidden: You are not assigned to this ticket''
                      StatusForbidden, w1)"
    using handleUpdateTicketStatus_found [OF assms(1) assms(2) assms(4)] assms(3) assms(5)
    by simp
  finally show ?thesis
    by (simp add: w1 http_Error_def)
qed

text \<open>
  C5, witness: technician 8 on ticket 42 of technician 7.
\<close>

theorem unassigned_technician_forbidden_witness:
  "\<not> form_error (status_request 8 ''technician'' ''42'' ''ready'') \<and>
   getUserClaims (status_request 8 ''technician'' ''42'' ''ready'') =
     Some (claims_of 8 ''technician'') \<and>
   Claims_Role (claims_of 8 ''technician'') = RoleTechnician \<and>
   TicketRepo_GetByID env0
     (fst (ParseInt (url_id (status_request 8 ''technician'' ''42'' ''ready'')))) world0 =
     ((Some ticket42, None), world0\<lparr>n_exec := 1\<rparr>) \<and>
   Ticket_TechnicianID ticket42 \<noteq> Claims_UserID (claims_of 8 ''technician'') \<and>
   technician_group (handleUpdateTicketStatus env0)
     (status_request 8 ''technician'' ''42'' ''ready'') world0 =
     (http_Error ''Forbidden: You are not assigned to this ticket'' StatusForbidden,
      world0\<lparr>n_exec := 1\<rparr>) \<and>
   tickets (world0\<lparr>n_exec := 1\<rparr>) = tickets world0 \<and>
   ticket_status_history (world0\<lparr>n_exec := 1\<rparr>) = ticket_status_history world0"
proof -
  let ?r = "status_request 8 ''technician'' ''42'' ''ready''"
  have h1: "\<not> form_error ?r"
    by (simp add: status_request_def)
  have h2: "getUserClaims ?r = Some (claims_of 8 ''technician'')"
    by (simp add: status_request_def getUserClaims_def)
  have h3: "Claims_Role (claims_of 8 ''technician'') = RoleTechnician"
    by (simp add: claims_of_def role_defs)
  have h4: "TicketRepo_GetByID env0 (fst (ParseInt (url_id ?r))) world0 =
              ((Some ticket42, None), world0\<lparr>n_exec := 1\<rparr>)"
    by (simp add: TicketRepo_GetByID_def QueryRowContext_def env0_def world0_def ticket42_def
        status_request_def ParseInt_def digit_val_def)
  have h5: "Ticket_TechnicianID ticket42 \<noteq> Claims_UserID (claims_of 8 ''technician'')"
    by (simp add: ticket42_def claims_of_def)
  from unassigned_technician_forbidden [OF h1 h2 h3 h4 h5] h1 h2 h3 h4 h5
  show ?thesis by blast
qed

subsection \<open>The history row of a status change\<close>

lemma update_success_path:
  assumes "\<not> form_error r" and "getUserClaims r = Some c"
      and "fst (ParseInt (url_id r)) = ident"
      and "TicketRepo_GetByID e ident w = ((Some t, None), w1)"
      and "fst (technician_group (handleUpdateTicketStatus e) r w) =
             http_Redirect (''/tickets/'' @ url_id r) StatusSeeOther"
      and "CHR ''?'' \<notin> set (url_id r)"
  shows "\<not> exec_error e (n_exec w1) \<and>
         snd (technician_group (handleUpdateTicketStatus e) r w) =
           snd (TicketRepo_UpdateStatus e ident (FormValue r ''status'') (Claims_UserID c)
                  (FormValue r ''notes'') w1)"
proof -
  let ?ok = "http_Redirect (''/tickets/'' @ url_id r) StatusSeeOther"
  note eq = update_route_eq [OF assms(1-4)]
  have n1: "?ok \<noteq> http_Redirect (''/tickets/'' @ FormatInt ident @ ''?error=invalid_transition'')
                     StatusSeeOther"
    using success_redirect_distinct [OF assms(6), of "FormatInt ident" "''error=invalid_transition''"]
    by (simp add: http_Redirect_def)
  have n2: "?ok \<noteq> http_Redirect (''/tickets/'' @ FormatInt ident @ ''?error=update_failed'')
                     StatusSeeOther"
    using success_redirect_distinct [OF assms(6), of "FormatInt ident" "''error=update_failed''"]
    by (simp add: http_Redirect_def)
  have n3: "\<And>m k. ?ok \<noteq> http_Error m k"
    by (simp add: http_Redirect_def http_Error_def)
  show ?thesis
  proof (cases "Claims_Role c \<noteq> RoleTechnician \<and> Claims_Role c \<noteq> RoleAdmin")
    case True
    then have "fst (technician_group (handleUpdateTicketStatus e) r w) =
                 http_Error ''Forbidden'' StatusForbidden"
      using eq by simp
    with assms(5) n3 n3 [symmetric] show ?thesis by simp
  next
    case a: False
    show ?thesis
    proof (cases "Claims_Role c = RoleTechnician \<and> Ticket_TechnicianID t \<noteq> Claims_UserID c")
      case True
      then have "fst (technician_group (handleUpdateTicketStatus e) r w) =
                 http_Error ''Forbidden: You are not assigned to this ticket'' StatusForbidden"
        using eq a by simp
      with assms(5) n3 n3 [symmetric] show ?thesis by simp
    next
      case b: False
      show ?thesis
      proof (cases "Claims_Role c = RoleTechnician \<and>
                    \<not> transition_valid (Ticket_Status t) (FormValue r ''status'')")
        case True
        then have "fst (technician_group (handleUpdateTicketStatus e) r w) =
                     http_Redirect (''/tickets/'' @ FormatInt ident @ ''?error=invalid_transition'')
                       StatusSeeOther"
          using eq a b by simp
        with assms(5) n1 n1 [symmetric] show ?thesis by simp
      next
        case c: False
        show ?thesis
        proof (cases "exec_error e (n_exec w1)")
          case True
          then have "fst (technician_group (handleUpdateTicketStatus e) r w) =
                     http_Redirect (''/tickets/'' @ FormatInt ident @ ''?error=update_failed'')
                       StatusSeeOther"
            using eq a b c by simp
          with assms(5) n2 n2 [symmetric] show ?thesis by simp
        next
          case False
          then show ?thesis using eq a b c by simp
        qed
      qed
    qed
  qed
qed

text \<open>
  C2 (amended). When a status-update request is answered with the redirect to the
  ticket page (the status change has succeeded, whether the status is new or the same
  as before), the history is the one before with exactly one row appended, unless the
  INSERT into the history fails (the driver returns an error, or the sequence of the
  table is exhausted): then the history is as before. The status of the row
  is the requested status, its notes are the submitted notes, and its changed-by column
  holds the id of the acting user (\<open>NULL\<close> for the id 0, which
  \<open>GetStatusHistory\<close> reads back as 0).
\<close>

theorem status_change_appends_history:
  assumes "\<not> form_error r" and "getUserClaims r = Some c"
      and "fst (ParseInt (url_id r)) = ident"
      and "TicketRepo_GetByID e ident w = ((Some t, None), w1)"
      and "fst (technician_group (handleUpdateTicketStatus e) r w) =
             http_Redirect (''/tickets/'' @ url_id r) StatusSeeOther"
      and "CHR ''?'' \<notin> set (url_id r)"
  shows "ticket_status_history (snd (technician_group (handleUpdateTicketStatus e) r w)) =
           (if exec_error e (Suc (n_exec w1)) \<or> history_seq w = 9223372036854775807
            then ticket_status_history w
            else ticket_status_history w @
           [\<lparr>row_id = history_seq w + 1, row_ticket_id = ident,
             row_status = FormValue r ''status'',
             row_changed_by = (if Claims_UserID c \<noteq> 0 then Some (Claims_UserID c) else None),
             row_notes = FormValue r ''notes'',
             row_created_at = now_at e (Suc (n_now w))\<rparr>]) \<and>
         (\<not> exec_error e (Suc (n_exec w1)) \<and> history_seq w \<noteq> 9223372036854775807 \<longrightarrow>
          History_ChangedBy
            (scan_history
               (last (ticket_status_history
                        (snd (technician_group (handleUpdateTicketStatus e) r w))))) =
            Claims_UserID c)"
proof -
  have w1: "w1 = w\<lparr>n_exec := Suc (n_exec w)\<rparr>"
    using GetByID_found(1) [OF assms(4)] .
  from update_success_path [OF assms(1-5) assms(6)]
  have ok: "\<not> exec_error e (n_exec w1)"
    and run: "snd (technician_group (handleUpdateTicketStatus e) r w) =
           snd (TicketRepo_UpdateStatus e ident (FormValue r ''status'') (Claims_UserID c)
                  (FormValue r ''notes'') w1)"
    by simp_all
  have h: "ticket_status_history (snd (technician_group (handleUpdateTicketStatus e) r w)) =
           (if exec_error e (Suc (n_exec w1)) \<or> history_seq w = 9223372036854775807
            then ticket_status_history w
            else ticket_status_history w @
           [\<lparr>row_id = history_seq w + 1, row_ticket_id = ident,
             row_status = FormValue r ''status'',
             row_changed_by = (if Claims_UserID c \<noteq> 0 then Some (Claims_UserID c) else None),
             row_notes = FormValue r ''notes'',
             row_created_at = now_at e (Suc (n_now w))\<rparr>])"
    using ok by (simp add: run UpdateStatus_history) (simp add: w1)
  show ?thesis
    by (simp add: h scan_history_def)
qed

text \<open>
  C2, witness: technician 7 moves ticket 42 from diagnosing to ready.
\<close>

theorem status_change_appends_history_witness:
  "\<not> form_error (status_request 7 ''technician'' ''42'' ''ready'') \<and>
   getUserClaims (status_request 7 ''technician'' ''42'' ''ready'') =
     Some (claims_of 7 ''technician'') \<and>
   fst (ParseInt (url_id (status_request 7 ''technician'' ''42'' ''ready''))) = 42 \<and>
   CHR ''?'' \<notin> set (url_id (status_request 7 ''technician'' ''42'' ''ready'')) \<and>
   TicketRepo_GetByID env0 42 world0 = ((Some ticket42, None), world0\<lparr>n_exec := 1\<rparr>) \<and>
   fst (technician_group (handleUpdateTicketStatus env0)
          (status_request 7 ''technician'' ''42'' ''ready'') world0) =
     http_Redirect
       (''/tickets/'' @ url_id (status_request 7 ''technician'' ''42'' ''ready''))
       StatusSeeOther \<and>
   \<not> exec_error env0 (Suc (n_exec (world0\<lparr>n_exec := 1\<rparr>))) \<and>
   history_seq world0 \<noteq> 9223372036854775807 \<and>
   ticket_status_history
     (snd (technician_group (handleUpdateTicketStatus env0)
             (status_request 7 ''technician'' ''42'' ''ready'') world0)) =
     [\<lparr>row_id = 1, row_ticket_id = 42, row_status = ''ready'', row_changed_by = Some 7,
       row_notes = ''ok'', row_created_at = 1700000000000000000\<rparr>]"
proof -
  let ?r = "status_request 7 ''technician'' ''42'' ''ready''"
  have h1: "\<not> form_error ?r"
    by (simp add: status_request_def)
  have h2: "getUserClaims ?r = Some (claims_of 7 ''technician'')"
    by (simp add: status_request_def getUserClaims_def)
  have h3: "fst (ParseInt (url_id ?r)) = 42"
    by (simp add: status_request_def ParseInt_def digit_val_def)
  have hq: "CHR ''?'' \<notin> set (url_id ?r)"
    by (simp add: status_request_def)
  have h4: "TicketRepo_GetByID env0 42 world0 = ((Some ticket42, None), world0\<lparr>n_exec := 1\<rparr>)"
    by (simp add: TicketRepo_GetByID_def QueryRowContext_def env0_def world0_def ticket42_def)
  have h5: "fst (technician_group (handleUpdateTicketStatus env0) ?r world0) =
              http_Redirect (''/tickets/'' @ url_id ?r) StatusSeeOther"
    by (simp add: eval_defs)
  have h6: "\<not> exec_error env0 (Suc (n_exec (world0\<lparr>n_exec := 1\<rparr>)))"
    by (simp add: env0_def)
  have v: "FormValue ?r ''status'' = ''ready''" "FormValue ?r ''notes'' = ''ok''"
          "Claims_UserID (claims_of 7 ''technician'') = 7"
          "ticket_status_history world0 = []" "history_seq world0 = 0"
          "now_at env0 (Suc (n_now world0)) = 1700000000000000000"
    by (simp_all add: status_request_def FormValue_def claims_of_def world0_def env0_def)
  from status_change_appends_history [OF h1 h2 h3 h4 h5 hq] h6
  have "ticket_status_history
          (snd (technician_group (handleUpdateTicketStatus env0) ?r world0)) =
        [\<lparr>row_id = 1, row_ticket_id = 42, row_status = ''ready'', row_changed_by = Some 7,
          row_notes = ''ok'', row_created_at = 1700000000000000000\<rparr>]"
    unfolding v by simp
  moreover have "history_seq world0 \<noteq> 9223372036854775807"
    by (simp add: world0_def)
  ultimately show ?thesis using h1 h2 h3 h4 h5 h6 hq by blast
qed

text \<open>
  C2, counterexample to the claim as stated: the third statement of the request, the
  INSERT into the history, fails. \<open>UpdateStatus\<close> prints the error and returns nil:
  the request is answered with the redirect of success, the ticket is ready, and the
  history has no new row.
\<close>

theorem status_change_without_history_counterexample:
  "fst (technician_group (handleUpdateTicketStatus (env_fail 2))
          (status_request 7 ''technician'' ''42'' ''ready'') world0) =
     http_Redirect ''/tickets/42'' StatusSeeOther \<and>
   map Ticket_Status (tickets world0) = [''diagnosing''] \<and>
   map Ticket_Status
     (tickets (snd (technician_group (handleUpdateTicketStatus (env_fail 2))
                      (status_request 7 ''technician'' ''42'' ''ready'') world0))) =
     [''ready''] \<and>
   ticket_status_history
     (snd (technician_group (handleUpdateTicketStatus (env_fail 2))
             (status_request 7 ''technician'' ''42'' ''ready'') world0)) =
     ticket_status_history world0"
  by (simp add: eval_defs)

subsection \<open>The history row of a new ticket\<close>

lemma Create_cases:
  "TicketRepo_Create e ticket w =
     (if exec_error e (n_exec w) \<or>
         Ticket_TrackingCode ticket \<in> Ticket_TrackingCode ` set (tickets w) \<or>
         tickets_seq w = 9223372036854775807
      then ((ticket, Some (Err ''failed to create ticket'')),
            w\<lparr>n_now := Suc (n_now w), n_exec := Suc (n_exec w)\<rparr>)
      else if last_id_error e (Suc (n_exec w))
      then ((ticket, Some (Err ''failed to get ticket ID'')),
            w\<lparr>n_now := Suc (n_now w), n_exec := Suc (n_exec w),
              tickets := tickets w @
                [ticket\<lparr>Ticket_CreatedAt := now_at e (n_now w),
                          Ticket_UpdatedAt := now_at e (n_now w),
                          Ticket_ID := tickets_seq w + 1\<rparr>],
              tickets_seq := tickets_seq w + 1\<rparr>)
      else ((ticket\<lparr>Ticket_ID := tickets_seq w + 1, Ticket_CreatedAt := now_at e (n_now w),
                     Ticket_UpdatedAt := now_at e (n_now w)\<rparr>, None),
            snd (CreateStatusHistory e
                   \<lparr>History_ID = 0, History_TicketID = tickets_seq w + 1,
                     History_Status = Ticket_Status ticket,
                     History_ChangedBy = Ticket_TechnicianID ticket,
                     History_Notes = ''Ticket creado'',
                     History_CreatedAt = now_at e (n_now w)\<rparr>
                   (w\<lparr>n_now := Suc (n_now w), n_exec := Suc (n_exec w),
                      tickets := tickets w @
                        [ticket\<lparr>Ticket_CreatedAt := now_at e (n_now w),
                                  Ticket_UpdatedAt := now_at e (n_now w),
                                  Ticket_ID := tickets_seq w + 1\<rparr>],
                      tickets_seq := tickets_seq w + 1\<rparr>))))"
  by (simp add: TicketRepo_Create_def time_Now_def ExecContext_def sql_insert_ticket_def
      Let_def split: prod.splits)

text \<open>
  C9 (amended). When \<open>TicketRepo.Create\<close> returns nil, the history is the one
  before with exactly one row appended, unless the INSERT into the history fails (the
  driver returns an error, or the sequence of the table is exhausted): then the
  history is as before. The row is for the new ticket, with the ticket's status,
  the notes \<open>Ticket creado\<close>, and in the changed-by column the technician id of the
  ticket, or \<open>NULL\<close> when that id is 0 (the walk-in path leaves it unset).
\<close>

theorem ticket_creation_history_row:
  assumes "TicketRepo_Create e ticket w = ((ticket', None), w')"
  shows "ticket_status_history w' =
           (if exec_error e (Suc (n_exec w)) \<or> history_seq w = 9223372036854775807
            then ticket_status_history w
            else ticket_status_history w @
           [\<lparr>row_id = history_seq w + 1, row_ticket_id = Ticket_ID ticket',
             row_status = Ticket_Status ticket,
             row_changed_by = (if Ticket_TechnicianID ticket \<noteq> 0
                               then Some (Ticket_TechnicianID ticket) else None),
             row_notes = ''Ticket creado'',
             row_created_at = now_at e (Suc (n_now w))\<rparr>])"
proof -
  have ok: "\<not> (exec_error e (n_exec w) \<or>
               Ticket_TrackingCode ticket \<in> Ticket_TrackingCode ` set (tickets w) \<or>
               tickets_seq w = 9223372036854775807)"
           "\<not> last_id_error e (Suc (n_exec w))"
    using assms by (simp_all add: Create_cases split: if_splits)
  have t: "ticket' = ticket\<lparr>Ticket_ID := tickets_seq w + 1,
                            Ticket_CreatedAt := now_at e (n_now w),
                            Ticket_UpdatedAt := now_at e (n_now w)\<rparr>"
    using assms ok by (simp add: Create_cases)
  have w': "w' = snd (TicketRepo_Create e ticket w)"
    using assms by simp
  show ?thesis
    using ok by (simp add: w' t Create_cases CreateStatusHistory_eq)
qed

lemma Create_new_ticket_env0:
  "TicketRepo_Create env0 (new_ticket tech) world0 =
     (((new_ticket tech)\<lparr>Ticket_ID := 43, Ticket_CreatedAt := 1700000000000000000,
                          Ticket_UpdatedAt := 1700000000000000000\<rparr>, None),
      snd (TicketRepo_Create env0 (new_ticket tech) world0))"
  by (simp add: Create_cases env0_def world0_def new_ticket_def ticket42_def)

text \<open>
  C9, witness: a ticket of technician 7, and a walk-in ticket without technician.
\<close>

theorem ticket_creation_history_row_witness:
  "TicketRepo_Create env0 (new_ticket 7) world0 =
     (((new_ticket 7)\<lparr>Ticket_ID := 43, Ticket_CreatedAt := 1700000000000000000,
                        Ticket_UpdatedAt := 1700000000000000000\<rparr>, None),
      snd (TicketRepo_Create env0 (new_ticket 7) world0)) \<and>
   \<not> exec_error env0 (Suc (n_exec world0)) \<and>
   history_seq world0 \<noteq> 9223372036854775807 \<and>
   ticket_status_history (snd (TicketRepo_Create env0 (new_ticket 7) world0)) =
     [\<lparr>row_id = 1, row_ticket_id = 43, row_status = ''received'', row_changed_by = Some 7,
       row_notes = ''Ticket creado'', row_created_at = 1700000000000000000\<rparr>] \<and>
   ticket_status_history (snd (TicketRepo_Create env0 (new_ticket 0) world0)) =
     [\<lparr>row_id = 1, row_ticket_id = 43, row_status = ''received'', row_changed_by = None,
       row_notes = ''Ticket creado'', row_created_at = 1700000000000000000\<rparr>]"
proof -
  have h2: "\<not> exec_error env0 (Suc (n_exec world0))"
    by (simp add: env0_def)
  have v: "ticket_status_history world0 = []" "history_seq world0 = 0"
          "now_at env0 (Suc (n_now world0)) = 1700000000000000000"
          "\<And>tech. Ticket_Status (new_ticket tech) = ''received''"
          "\<And>tech. Ticket_TechnicianID (new_ticket tech) = tech"
    by (simp_all add: world0_def env0_def new_ticket_def)
  have a: "ticket_status_history (snd (TicketRepo_Create env0 (new_ticket 7) world0)) =
     [\<lparr>row_id = 1, row_ticket_id = 43, row_status = ''received'', row_changed_by = Some 7,
       row_notes = ''Ticket creado'', row_created_at = 1700000000000000000\<rparr>]"
    using ticket_creation_history_row [OF Create_new_ticket_env0 [of 7]] h2
    unfolding v by simp
  have b: "ticket_status_history (snd (TicketRepo_Create env0 (new_ticket 0) world0)) =
     [\<lparr>row_id = 1, row_ticket_id = 43, row_status = ''received'', row_changed_by = None,
       row_notes = ''Ticket creado'', row_created_at = 1700000000000000000\<rparr>]"
    using ticket_creation_history_row [OF Create_new_ticket_env0 [of 0]] h2
    unfolding v by simp
  have hs: "history_seq world0 \<noteq> 9223372036854775807"
    by (simp add: world0_def)
  from Create_new_ticket_env0 [of 7] h2 hs a b show ?thesis by blast
qed

text \<open>
  C9, counterexample to the claim as stated: the notes of the initial row are
  \<open>Ticket creado\<close>, not \<open>created\<close>.
\<close>

theorem ticket_creation_notes_counterexample:
  "snd (fst (TicketRepo_Create env0 (new_ticket 7) world0)) = None \<and>
   map row_notes
     (ticket_status_history (snd (TicketRepo_Create env0 (new_ticket 7) world0))) =
     [''Ticket creado''] \<and>
   ''Ticket creado'' \<noteq> ''created''"
  by (simp add: eval_defs new_ticket_def)

subsection \<open>Ticket creation and the status of the booking\<close>

lemma BookingGetByID_world:
  "BookingRepo_GetByID e i w = (res, w1) \<Longrightarrow> w1 = w\<lparr>n_exec := Suc (n_exec w)\<rparr>"
  by (auto simp add: BookingRepo_GetByID_def QueryRowContext_def
      split: if_splits option.splits)

lemma Create_success:
  assumes "TicketRepo_Create e t w = ((t', None), w')"
  shows "bookings w' = bookings w" and "users w' = users w"
    and "n_exec w' = n_exec w + 2"
proof -
  have w': "w' = snd (TicketRepo_Create e t w)"
    using assms by simp
  have ok: "\<not> (exec_error e (n_exec w) \<or>
               Ticket_TrackingCode t \<in> Ticket_TrackingCode ` set (tickets w) \<or>
               tickets_seq w = 9223372036854775807)"
           "\<not> last_id_error e (Suc (n_exec w))"
    using assms by (simp_all add: Create_cases split: if_splits)
  show "bookings w' = bookings w" "users w' = users w" "n_exec w' = n_exec w + 2"
    using ok by (simp_all add: w' Create_cases CreateStatusHistory_eq)
qed

lemma BookingUpdateStatus_bookings:
  "BookingRepo_UpdateStatus e i s w = (err, w') \<Longrightarrow>
   bookings w' =
     (if exec_error e (n_exec w) then bookings w
      else map (\<lambda>b. if Booking_ID b = i then b\<lparr>Booking_Status := s\<rparr> else b) (bookings w))"
  by (auto simp add: BookingRepo_UpdateStatus_def ExecContext_def
      sql_update_booking_status_def Let_def split: if_splits)

lemma handleCreateTicket_eq:
  "handleCreateTicket e cfg r w =
     (let bid = fst (ParseInt (url_id r));
          g = BookingRepo_GetByID e bid w;
          w1 = w\<lparr>n_exec := Suc (n_exec w)\<rparr>;
          w2 = w1\<lparr>n_rand := Suc (n_rand w)\<rparr>
      in if fst (fst g) = None then (http_NotFound, w1)
         else if snd (fst g) \<noteq> None then (http_NotFound, w1)
         else case qrcode_Encode e
                     (''http://localhost:'' @ Itoa (Config_Server_Port cfg) @ ''/tracking/'' @
                      rand_code e (n_rand w)) of
                None \<Rightarrow> (http_Error ''Error generating QR code'' StatusInternalServerError, w2)
              | Some png \<Rightarrow>
                  (case getUserClaims r of
                     None \<Rightarrow> (panic, w2)
                   | Some c \<Rightarrow>
                       (let cr = TicketRepo_Create e (created_ticket e r w c png) w2
                        in if snd (fst cr) \<noteq> None
                           then (http_Error ''Error creating ticket''
                                   StatusInternalServerError, snd cr)
                           else (http_Redirect
                                   (''/tickets/'' @ FormatInt (Ticket_ID (fst (fst cr))))
                                   StatusSeeOther,
                                 snd (BookingRepo_UpdateStatus e bid BookingStatusConfirmed
                                        (snd cr))))))"
proof -
  let ?url = "''http://localhost:'' @ Itoa (Config_Server_Port cfg) @ ''/tracking/'' @
              rand_code e (n_rand w)"
  obtain bo er w1 where g: "BookingRepo_GetByID e (fst (ParseInt (url_id r))) w = ((bo, er), w1)"
    by (cases "BookingRepo_GetByID e (fst (ParseInt (url_id r))) w") auto
  have w1: "w1 = w\<lparr>n_exec := Suc (n_exec w)\<rparr>"
    using BookingGetByID_world [OF g] .
  note defs = handleCreateTicket_def created_ticket_def Let_def generateTrackingCode_def g w1
  show ?thesis
  proof (cases bo)
    case None
    then show ?thesis by (simp add: defs)
  next
    case b: (Some b)
    show ?thesis
    proof (cases er)
      case (Some x)
      then show ?thesis by (simp add: defs b)
    next
      case er: None
      show ?thesis
      proof (cases "qrcode_Encode e ?url")
        case None
        then show ?thesis by (simp add: defs b er)
      next
        case q: (Some png)
        show ?thesis
        proof (cases "getUserClaims r")
          case None
          then show ?thesis using q by (simp add: defs b er)
        next
          case c: (Some c)
          obtain t' cerr w3 where cr:
            "TicketRepo_Create e (created_ticket e r w c png)
               (w\<lparr>n_exec := Suc (n_exec w), n_rand := Suc (n_rand w)\<rparr>) = ((t', cerr), w3)"
            by (cases "TicketRepo_Create e (created_ticket e r w c png)
                 (w\<lparr>n_exec := Suc (n_exec w), n_rand := Suc (n_rand w)\<rparr>)") auto
          show ?thesis
          proof (cases cerr)
            case None
            then show ?thesis
              using cr q by (simp add: defs b er c case_prod_beta)
          next
            case (Some x)
            then show ?thesis
              using cr q by (simp add: defs b er c)
          qed
        qed
      qed
    qed
  qed
qed

lemma handleCreateTicket_redirect:
  assumes "reply (fst (handleCreateTicket e cfg r w)) = Redirect url code"
  shows "\<exists>c png.
           snd (fst (TicketRepo_Create e (created_ticket e r w c png)
                       (w\<lparr>n_exec := Suc (n_exec w), n_rand := Suc (n_rand w)\<rparr>))) = None \<and>
           snd (handleCreateTicket e cfg r w) =
             snd (BookingRepo_UpdateStatus e (fst (ParseInt (url_id r))) BookingStatusConfirmed
                    (snd (TicketRepo_Create e (created_ticket e r w c png)
                            (w\<lparr>n_exec := Suc (n_exec w), n_rand := Suc (n_rand w)\<rparr>))))"
proof -
  let ?g = "BookingRepo_GetByID e (fst (ParseInt (url_id r))) w"
  let ?url = "''http://localhost:'' @ Itoa (Config_Server_Port cfg) @ ''/tracking/'' @
              rand_code e (n_rand w)"
  let ?w2 = "w\<lparr>n_exec := Suc (n_exec w), n_rand := Suc (n_rand w)\<rparr>"
  note eq = handleCreateTicket_eq [of e cfg r w]
  obtain b where g1: "fst (fst ?g) = Some b"
  proof (cases "fst (fst ?g)")
    case None
    then have "reply (fst (handleCreateTicket e cfg r w)) = reply http_NotFound"
      by (simp add: eq Let_def)
    with assms show ?thesis by (simp add: http_defs)
  next
    case (Some b)
    then show ?thesis using that by simp
  qed
  have g2: "snd (fst ?g) = None"
  proof (rule ccontr)
    assume "snd (fst ?g) \<noteq> None"
    then have "reply (fst (handleCreateTicket e cfg r w)) = reply http_NotFound"
      using g1 by (simp add: eq Let_def)
    with assms show False by (simp add: http_defs)
  qed
  obtain png where q: "qrcode_Encode e ?url = Some png"
  proof (cases "qrcode_Encode e ?url")
    case None
    then have "reply (fst (handleCreateTicket e cfg r w)) =
                 reply (http_Error ''Error generating QR code'' StatusInternalServerError)"
      using g1 g2 by (simp add: eq Let_def)
    with assms show ?thesis by (simp add: http_defs)
  next
    case (Some png)
    then show ?thesis using that by simp
  qed
  obtain c where c: "getUserClaims r = Some c"
  proof (cases "getUserClaims r")
    case None
    then have "reply (fst (handleCreateTicket e cfg r w)) = reply panic"
      using g1 g2 q by (simp add: eq Let_def)
    with assms show ?thesis by (simp add: http_defs)
  next
    case (Some c)
    then show ?thesis using that by simp
  qed
  let ?cr = "TicketRepo_Create e (created_ticket e r w c png) ?w2"
  have cr: "snd (fst ?cr) = None"
  proof (rule ccontr)
    assume "snd (fst ?cr) \<noteq> None"
    then have "reply (fst (handleCreateTicket e cfg r w)) =
                 reply (http_Error ''Error creating ticket'' StatusInternalServerError)"
      using g1 g2 q c by (simp add: eq Let_def)
    with assms show False by (simp add: http_defs)
  qed
  have "snd (handleCreateTicket e cfg r w) =
          snd (BookingRepo_UpdateStatus e (fst (ParseInt (url_id r))) BookingStatusConfirmed
                 (snd ?cr))"
    using g1 g2 q c cr by (simp add: eq Let_def)
  with cr show ?thesis by blast
qed

text \<open>
  What \<open>handleCreateTicket\<close> does to the bookings when it answers with a redirect
  (the ticket has been created): the bookings afterwards are the bookings before with
  the status of the booking of the route set to confirmed, its other fields and the
  other bookings unchanged, unless the fourth statement of the request, the UPDATE of
  the booking, fails: then the bookings are as before.
\<close>

lemma handleCreateTicket_bookings:
  assumes "handleCreateTicket e cfg r w = (resp, w')"
      and "reply resp = Redirect url code"
  shows "bookings w' =
           (if exec_error e (n_exec w + 3) then bookings w
            else map (\<lambda>b. if Booking_ID b = fst (ParseInt (url_id r))
                         then b\<lparr>Booking_Status := BookingStatusConfirmed\<rparr> else b)
                     (bookings w))"
proof -
  let ?bid = "fst (ParseInt (url_id r))"
  let ?w2 = "w\<lparr>n_exec := Suc (n_exec w), n_rand := Suc (n_rand w)\<rparr>"
  have "reply (fst (handleCreateTicket e cfg r w)) = Redirect url code"
    using assms(1,2) by simp
  from handleCreateTicket_redirect [OF this] obtain c png where
      cr: "snd (fst (TicketRepo_Create e (created_ticket e r w c png) ?w2)) = None"
    and w': "snd (handleCreateTicket e cfg r w) =
               snd (BookingRepo_UpdateStatus e ?bid BookingStatusConfirmed
                      (snd (TicketRepo_Create e (created_ticket e r w c png) ?w2)))"
    by blast
  obtain t' w3 where c3: "TicketRepo_Create e (created_ticket e r w c png) ?w2 = ((t', None), w3)"
    using cr by (cases "TicketRepo_Create e (created_ticket e r w c png) ?w2") auto
  have b3: "bookings w3 = bookings w" and n3: "n_exec w3 = n_exec w + 3"
    using Create_success(1,3) [OF c3] by simp_all
  obtain uerr w4 where u: "BookingRepo_UpdateStatus e ?bid BookingStatusConfirmed w3 = (uerr, w4)"
    by (cases "BookingRepo_UpdateStatus e ?bid BookingStatusConfirmed w3") auto
  have "w' = w4"
    using w' c3 u assms(1) by simp
  then show ?thesis
    using BookingUpdateStatus_bookings [OF u] by (simp add: b3 n3)
qed

text \<open>
  Without a failure the booking is confirmed: technician 7 creates a ticket from the
  pending booking 5.
\<close>

lemma handleCreateTicket_bookings_env0:
  "handleCreateTicket env0 cfg0 (status_request 7 ''technician'' ''5'' []) world0 =
     (http_Redirect ''/tickets/43'' StatusSeeOther,
      snd (handleCreateTicket env0 cfg0 (status_request 7 ''technician'' ''5'' []) world0)) \<and>
   reply (http_Redirect ''/tickets/43'' StatusSeeOther) =
     Redirect ''/tickets/43'' StatusSeeOther \<and>
   \<not> exec_error env0 (n_exec world0 + 3) \<and>
   bookings world0 = [booking5] \<and> Booking_Status booking5 = ''pending'' \<and>
   bookings (snd (handleCreateTicket env0 cfg0 (status_request 7 ''technician'' ''5'' [])
                    world0)) =
     [booking5\<lparr>Booking_Status := ''confirmed''\<rparr>]"
proof -
  let ?r = "status_request 7 ''technician'' ''5'' []"
  have h1: "handleCreateTicket env0 cfg0 ?r world0 =
              (http_Redirect ''/tickets/43'' StatusSeeOther,
               snd (handleCreateTicket env0 cfg0 ?r world0))"
    by (simp add: eval_defs)
  have h2: "reply (http_Redirect ''/tickets/43'' StatusSeeOther) =
              Redirect ''/tickets/43'' StatusSeeOther"
    by (simp add: http_Redirect_def)
  have h3: "\<not> exec_error env0 (n_exec world0 + 3)"
    by (simp add: env0_def)
  have v: "bookings world0 = [booking5]" "Booking_Status booking5 = ''pending''"
          "fst (ParseInt (url_id ?r)) = 5" "Booking_ID booking5 = 5"
    by (simp_all add: world0_def booking5_def status_request_def ParseInt_def digit_val_def)
  from handleCreateTicket_bookings [OF h1 h2] h3
  have "bookings (snd (handleCreateTicket env0 cfg0 ?r world0)) =
          [booking5\<lparr>Booking_Status := ''confirmed''\<rparr>]"
    unfolding v by (simp add: v BookingStatusConfirmed_def)
  with h1 h2 h3 v(1,2) show ?thesis by blast
qed

text \<open>
  C7. The code does not keep the claim: \<open>handleCreateTicket\<close> calls
  \<open>Bookings.UpdateStatus\<close> after the ticket is stored and drops the error it
  returns. Here technician 7 creates a ticket from the pending booking 5 while the
  fourth statement of the request, the UPDATE of the booking, fails: ticket 43 is
  created, the answer is the redirect to it, and booking 5 is still pending.
  \<open>handleCancelBooking\<close> checks the error of the same call: when customer 1 cancels
  booking 5 and the UPDATE fails, the answer is 500 and says so.
\<close>

theorem ticket_creation_drops_booking_error:
  "reply (fst (handleCreateTicket (env_fail 3) cfg0
                 (status_request 7 ''technician'' ''5'' []) world0)) =
     Redirect ''/tickets/43'' StatusSeeOther \<and>
   map Ticket_ID
     (tickets (snd (handleCreateTicket (env_fail 3) cfg0
                      (status_request 7 ''technician'' ''5'' []) world0))) = [42, 43] \<and>
   map Booking_Status (bookings world0) = [''pending''] \<and>
   map Booking_Status
     (bookings (snd (handleCreateTicket (env_fail 3) cfg0
                       (status_request 7 ''technician'' ''5'' []) world0))) = [''pending''] \<and>
   reply (fst (handleCancelBooking (env_fail 1)
                 (status_request 1 ''customer'' ''5'' []) world0)) =
     Error ''Error cancelling booking'' StatusInternalServerError"
  by (simp add: eval_defs handleCancelBooking_def BookingStatusCancelled_def)

subsection \<open>The stored statuses\<close>










































subsection \<open>Failed logins\<close>

lemma GetByEmail_eq:
  "UserRepo_GetByEmail e email w =
     ((if exec_error e (n_exec w) then (None, Some (Err ''failed to get user by email''))
       else (find (\<lambda>u. User_Email u = email) (users w), None)),
      w\<lparr>n_exec := Suc (n_exec w)\<rparr>)"
  by (simp add: UserRepo_GetByEmail_def QueryRowContext_def split: option.splits)

text \<open>
  C10. A login request that fails, because no user has the given email or because
  the password does not match the stored hash, is answered with the login page with
  the flash message of invalid credentials; no cookie is set, and the state
  afterwards is the state before with one statement and one clock reading counted,
  so no table has changed. The page does not depend on the email, on the password or
  on which of the two cases it is: it does not tell whether the email is registered.
\<close>

theorem login_failure_generic:
  assumes "\<not> form_error r" and "spec_login_fails e r w"
  shows "handleLogin e cfg r w =
           (render e ''pages/public/login.html''
              \<lparr>Page_Title = title_Iniciar_Sesion, Page_Config = cfg,
               Page_Year = time_Year e (now_at e (n_now w)),
               Page_User = getUserClaims r,
               Page_Flash = Some \<lparr>Flash_Type = ''error'',
                                  Flash_Message = msg_Credenciales_invalidas\<rparr>\<rparr>,
            w\<lparr>n_exec := Suc (n_exec w), n_now := Suc (n_now w)\<rparr>) \<and>
         set_cookies (fst (handleLogin e cfg r w)) = []"
proof -
  let ?page = "\<lparr>Page_Title = title_Iniciar_Sesion, Page_Config = cfg,
               Page_Year = time_Year e (now_at e (n_now w)),
               Page_User = getUserClaims r,
               Page_Flash = Some \<lparr>Flash_Type = ''error'',
                                  Flash_Message = msg_Credenciales_invalidas\<rparr>\<rparr>"
  have run: "handleLogin e cfg r w =
               (render e ''pages/public/login.html'' ?page,
                w\<lparr>n_exec := Suc (n_exec w), n_now := Suc (n_now w)\<rparr>)"
  proof (cases "exec_error e (n_exec w)")
    case True
    then show ?thesis
      using assms(1)
      by (simp add: handleLogin_def Let_def GetByEmail_eq newPageData_def time_Now_def)
  next
    case ne: False
    show ?thesis
    proof (cases "find (\<lambda>u. User_Email u = FormValue r ''email'') (users w)")
      case None
      then show ?thesis
        using assms(1) ne
        by (simp add: handleLogin_def Let_def GetByEmail_eq newPageData_def time_Now_def)
    next
      case (Some u)
      then have "\<not> checkPasswordHash e (FormValue r ''password'') (User_PasswordHash u)"
        using assms(2) by (simp add: spec_login_fails_def)
      then show ?thesis
        using assms(1) ne Some
        by (simp add: handleLogin_def Let_def GetByEmail_eq newPageData_def time_Now_def)
    qed
  qed
  have "set_cookies (render e ''pages/public/login.html'' ?page) = []"
    by (simp add: render_def http_Error_def split: option.splits)
  with run show ?thesis by simp
qed

text \<open>
  C10, witness: an email that is not registered, and the registered email with a
  wrong password, get the same answer.
\<close>

theorem login_failure_generic_witness:
  "\<not> form_error (login_request ''bob@example.com'' ''secreto'') \<and>
   spec_login_fails env0 (login_request ''bob@example.com'' ''secreto'') world0 \<and>
   \<not> form_error (login_request ''ana@example.com'' ''wrong'') \<and>
   spec_login_fails env0 (login_request ''ana@example.com'' ''wrong'') world0 \<and>
   handleLogin env0 cfg0 (login_request ''bob@example.com'' ''secreto'') world0 =
     handleLogin env0 cfg0 (login_request ''ana@example.com'' ''wrong'') world0 \<and>
   fst (handleLogin env0 cfg0 (login_request ''ana@example.com'' ''wrong'') world0) =
     \<lparr>set_cookies = [],
      reply = Render ''pages/public/login.html''
                \<lparr>Page_Title = title_Iniciar_Sesion, Page_Config = cfg0, Page_Year = 2023,
                 Page_User = None,
                 Page_Flash = Some \<lparr>Flash_Type = ''error'',
                                    Flash_Message = msg_Credenciales_invalidas\<rparr>\<rparr>\<rparr> \<and>
   users (snd (handleLogin env0 cfg0 (login_request ''ana@example.com'' ''wrong'') world0)) =
     users world0"
proof -
  let ?r1 = "login_request ''bob@example.com'' ''secreto''"
  let ?r2 = "login_request ''ana@example.com'' ''wrong''"
  have a1: "\<not> form_error ?r1" and a2: "\<not> form_error ?r2"
    by (simp_all add: login_request_def)
  have b1: "spec_login_fails env0 ?r1 world0"
    by (simp add: spec_login_fails_def login_request_def FormValue_def world0_def user_ana_def)
  have b2: "spec_login_fails env0 ?r2 world0"
    by (simp add: spec_login_fails_def login_request_def FormValue_def world0_def user_ana_def
        checkPasswordHash_def env0_def)
  have v: "getUserClaims ?r1 = None" "getUserClaims ?r2 = None"
          "time_Year env0 (now_at env0 (n_now world0)) = 2023"
    by (simp_all add: getUserClaims_def login_request_def env0_def)
  note l1 = login_failure_generic [OF a1 b1, of cfg0, unfolded v]
  note l2 = login_failure_generic [OF a2 b2, of cfg0, unfolded v]
  have same: "handleLogin env0 cfg0 ?r1 world0 = handleLogin env0 cfg0 ?r2 world0"
    using l1 l2 by simp
  have page: "fst (handleLogin env0 cfg0 ?r2 world0) =
     \<lparr>set_cookies = [],
      reply = Render ''pages/public/login.html''
                \<lparr>Page_Title = title_Iniciar_Sesion, Page_Config = cfg0, Page_Year = 2023,
                 Page_User = None,
                 Page_Flash = Some \<lparr>Flash_Type = ''error'',
                                    Flash_Message = msg_Credenciales_invalidas\<rparr>\<rparr>\<rparr>"
    using l2 by (simp add: render_def env0_def)
  have u: "users (snd (handleLogin env0 cfg0 ?r2 world0)) = users world0"
    using l2 by simp
  from a1 a2 b1 b2 same page u show ?thesis by blast
qed

subsection \<open>Session tokens\<close>

lemma SplitN2_Bearer: "SplitN2 (''Bearer '' @ tok) = [''Bearer'', tok]"
  by (simp add: SplitN2_def)

lemma generateToken_eq:
  "generateToken e cfg user w =
     (jwt_SignedString e (Config_JWT_Secret cfg)
        \<lparr>Claims_UserID = User_ID user, Claims_Email = User_Email user,
         Claims_Role = User_Role user,
         Claims_ExpiresAt =
           Some (NewNumericDate
                   (now_at e (n_now w) + sint (Config_JWT_ExpirationHours cfg * time_Hour))),
         Claims_IssuedAt = Some (NewNumericDate (now_at e (Suc (n_now w)))),
         Claims_Issuer = Config_Business_Name cfg\<rparr>,
      w\<lparr>n_now := Suc (Suc (n_now w))\<rparr>)"
  by (simp add: generateToken_def time_Now_def Let_def)

lemma authMiddleware_token:
  assumes "map_of (cookies r) ''auth_token'' = Some tok \<or>
           (map_of (cookies r) ''auth_token'' = None \<and>
            map_of (headers r) ''Authorization'' = Some (''Bearer '' @ tok))"
  shows "authMiddleware e cfg next r w =
           (case jwt_ParseWithClaims e tok (Config_JWT_Secret cfg) (now_at e (n_now w)) of
              None \<Rightarrow> (\<lparr>set_cookies = [clearAuthCookie],
                         reply = Redirect ''/login'' StatusSeeOther\<rparr>,
                       w\<lparr>n_now := Suc (n_now w)\<rparr>)
            | Some claims \<Rightarrow> next (r\<lparr>ctx_user := Some claims\<rparr>) (w\<lparr>n_now := Suc (n_now w)\<rparr>))"
  using assms
proof
  assume "map_of (cookies r) ''auth_token'' = Some tok"
  then show ?thesis
    by (simp add: authMiddleware_def time_Now_def Let_def)
next
  assume h: "map_of (cookies r) ''auth_token'' = None \<and>
             map_of (headers r) ''Authorization'' = Some (''Bearer '' @ tok)"
  have s: "SplitN2 (CHR ''B'' # CHR ''e'' # CHR ''a'' # CHR ''r'' # CHR ''e'' # CHR ''r'' #
                    CHR '' '' # tok) = [''Bearer'', tok]"
    using SplitN2_Bearer [of tok] by simp
  from h show ?thesis
    by (simp add: authMiddleware_def time_Now_def Let_def s)
qed

lemma NewNumericDate_idem: "NewNumericDate (NewNumericDate t) = NewNumericDate t"
  by (simp add: NewNumericDate_def)

lemma NewNumericDate_bounds:
  "t - 1000000000 < NewNumericDate t" "NewNumericDate t \<le> t"
proof -
  have "0 \<le> t mod 1000000000" "t mod 1000000000 < 1000000000"
    by simp_all
  then show "t - 1000000000 < NewNumericDate t" "NewNumericDate t \<le> t"
    by (simp_all add: NewNumericDate_def)
qed

lemma utf8_valid_coerce: "utf8_valid_from k s \<Longrightarrow> utf8_coerce k s = s"
proof (induction s arbitrary: k)
  case Nil
  then show ?case by simp
next
  case (Cons c cs)
  then show ?case by (cases k) simp_all
qed

lemma json_string_valid: "utf8_ValidString s \<Longrightarrow> json_string s = s"
  by (simp add: utf8_ValidString_def json_string_def utf8_valid_coerce)

lemma issued_dates_exact:
  assumes "clock_in_range t1" and "clock_in_range t2"
  shows "numeric_date_exact (NewNumericDate (t1 + sint (d :: int64)))"
    and "numeric_date_exact (NewNumericDate t2)"
proof -
  have s: "- 9223372036854775808 \<le> sint d" "sint d \<le> 9223372036854775807"
    using sint_ge [of d] sint_lt [of d] by simp_all
  show "numeric_date_exact (NewNumericDate (t1 + sint d))"
    using assms(1) s NewNumericDate_bounds [of "t1 + sint d"]
    by (simp add: numeric_date_exact_def clock_in_range_def)
  show "numeric_date_exact (NewNumericDate t2)"
    using assms(2) NewNumericDate_bounds [of t2]
    by (simp add: numeric_date_exact_def clock_in_range_def)
qed

lemma issued_token_parse:
  assumes "golang_jwt e"
      and "clock_in_range (now_at e (n_now w0))"
      and "clock_in_range (now_at e (Suc (n_now w0)))"
      and "generateToken e cfg user w0 = (Some tok, w0')"
  shows "jwt_ParseWithClaims e tok (Config_JWT_Secret cfg) now =
           (if now < NewNumericDate
                       (now_at e (n_now w0) + sint (Config_JWT_ExpirationHours cfg * time_Hour))
            then Some \<lparr>Claims_UserID = User_ID user,
                       Claims_Email = json_string (User_Email user),
                       Claims_Role = json_string (User_Role user),
                       Claims_ExpiresAt =
                         Some (NewNumericDate
                                 (now_at e (n_now w0) +
                                  sint (Config_JWT_ExpirationHours cfg * time_Hour))),
                       Claims_IssuedAt = Some (NewNumericDate (now_at e (Suc (n_now w0)))),
                       Claims_Issuer = json_string (Config_Business_Name cfg)\<rparr>
            else None)"
proof -
  let ?E = "NewNumericDate
              (now_at e (n_now w0) + sint (Config_JWT_ExpirationHours cfg * time_Hour))"
  let ?I = "NewNumericDate (now_at e (Suc (n_now w0)))"
  let ?c = "\<lparr>Claims_UserID = User_ID user, Claims_Email = User_Email user,
             Claims_Role = User_Role user, Claims_ExpiresAt = Some ?E,
             Claims_IssuedAt = Some ?I,
             Claims_Issuer = Config_Business_Name cfg\<rparr>"
  have signed: "jwt_SignedString e (Config_JWT_Secret cfg) ?c = Some tok"
    using assms(4) by (simp add: generateToken_eq)
  have ex: "\<forall>t. Claims_ExpiresAt ?c = Some t \<or> Claims_IssuedAt ?c = Some t \<longrightarrow>
                numeric_date_exact t"
    using issued_dates_exact [OF assms(2,3)] by auto
  from assms(1) ex obtain tok' where
      s': "jwt_SignedString e (Config_JWT_Secret cfg) ?c = Some tok'"
    and p': "\<forall>now. jwt_ParseWithClaims e tok' (Config_JWT_Secret cfg) now =
              (case Claims_ExpiresAt (json_Claims ?c) of
                 None \<Rightarrow> Some (json_Claims ?c)
               | Some E \<Rightarrow> if now < E then Some (json_Claims ?c) else None)"
    unfolding golang_jwt_def by blast
  have "tok' = tok" using signed s' by simp
  with p' show ?thesis
    by (simp add: json_Claims_def NewNumericDate_idem)
qed


lemma digit_char_cases:
  "digit_char d \<in> set ''0123456789''"
  unfolding digit_char_def by (rule nth_mem) simp

lemma digit_val_digit_char:
  assumes "d < 10"
  shows "digit_val (digit_char d) = Some d"
proof -
  have "d = 0 \<or> d = 1 \<or> d = 2 \<or> d = 3 \<or> d = 4 \<or> d = 5 \<or> d = 6 \<or> d = 7 \<or> d = 8 \<or> d = 9"
    using assms by arith
  then show ?thesis
    by (elim disjE) (simp_all add: digit_char_def digit_val_def)
qed

lemma parse_digits_append:
  "parse_digits a (xs @ ys) =
     (case parse_digits a xs of None \<Rightarrow> None | Some b \<Rightarrow> parse_digits b ys)"
  by (induction xs arbitrary: a) (simp_all split: option.splits)

lemma parse_digits_format_nat:
  "parse_digits a (format_nat n) = Some (a * 10 ^ length (format_nat n) + n)"
proof (induction n arbitrary: a rule: format_nat.induct)
  case (1 n)
  show ?case
  proof (cases "n < 10")
    case True
    then show ?thesis
      by (simp add: format_nat.simps [of n] digit_val_digit_char)
  next
    case False
    have m: "n mod 10 < 10" by simp
    have "parse_digits a (format_nat n) =
            Some ((a * 10 ^ length (format_nat (n div 10)) + n div 10) * 10 + n mod 10)"
      using False 1 [OF False, of a]
      by (simp add: format_nat.simps [of n] parse_digits_append digit_val_digit_char [OF m])
    moreover have "length (format_nat n) = Suc (length (format_nat (n div 10)))"
      using False by (simp add: format_nat.simps [of n])
    ultimately show ?thesis
      by (simp add: algebra_simps)
  qed
qed

lemma format_nat_no_colon: "CHR '':'' \<notin> set (format_nat n)"
proof (induction n rule: format_nat.induct)
  case (1 n)
  have d: "\<And>k. digit_char k \<noteq> CHR '':''"
  proof
    fix k assume "digit_char k = CHR '':''"
    with digit_char_cases [of k] show False by simp
  qed
  show ?case
  proof (cases "n < 10")
    case True
    then show ?thesis using d [of n] by (simp add: format_nat.simps [of n])
  next
    case False
    then show ?thesis
      using 1 [OF False] d [of "n mod 10"] by (simp add: format_nat.simps [of n])
  qed
qed

lemma dec_nat_enc_nat: "dec_nat (enc_nat n @ r) = Some (n, r)"
proof -
  have a: "\<And>x. x \<in> set (format_nat n) \<Longrightarrow> x \<noteq> CHR '':''"
    using format_nat_no_colon by blast
  have t: "takeWhile (\<lambda>c. c \<noteq> CHR '':'') (format_nat n @ CHR '':'' # r) = format_nat n"
    using a by (simp add: takeWhile_append2)
  have d: "dropWhile (\<lambda>c. c \<noteq> CHR '':'') (format_nat n @ CHR '':'' # r) = CHR '':'' # r"
    using a by (simp add: dropWhile_append2)
  show ?thesis
    using t d by (simp add: dec_nat_def enc_nat_def parse_digits_format_nat)
qed

lemma dec_string_enc_string: "dec_string (enc_string s @ r) = Some (s, r)"
  using dec_nat_enc_nat [of "length s" "s @ r"]
  by (simp add: dec_string_def enc_string_def)

lemma dec_int_enc_int: "dec_int (enc_int i @ r) = Some (i, r)"
  using dec_nat_enc_nat [of "nat \<bar>i\<bar>" r]
  by (simp add: dec_int_def enc_int_def)

lemma dec_date_enc_date: "dec_date (enc_date d @ r) = Some (d, r)"
proof (cases d)
  case None
  then show ?thesis by (simp add: dec_date_def enc_date_def)
next
  case (Some t)
  then show ?thesis
    using dec_int_enc_int [of t r] by (simp add: dec_date_def enc_date_def)
qed

lemma dec_Claims_enc_Claims: "dec_Claims (enc_Claims c) = Some c"
proof -
  let ?s6 = "enc_string (Claims_Issuer c)"
  let ?s5 = "enc_date (Claims_IssuedAt c) @ ?s6"
  let ?s4 = "enc_date (Claims_ExpiresAt c) @ ?s5"
  let ?s3 = "enc_string (Claims_Role c) @ ?s4"
  let ?s2 = "enc_string (Claims_Email c) @ ?s3"
  have e: "enc_Claims c = enc_nat (unat (Claims_UserID c)) @ ?s2"
    by (simp add: enc_Claims_def)
  have l: "dec_string ?s6 = Some (Claims_Issuer c, [])"
    using dec_string_enc_string [of "Claims_Issuer c" "[]"] by simp
  show ?thesis
    unfolding e dec_Claims_def
    by (simp only: dec_nat_enc_nat dec_string_enc_string dec_date_enc_date l
        option.case prod.case) simp
qed

lemma lib_round_trip:
  "lib_SignedString key c = Some (enc_string key @ enc_Claims (json_Claims c)) \<and>
   lib_ParseWithClaims (enc_string key @ enc_Claims (json_Claims c)) key now =
     (case Claims_ExpiresAt (json_Claims c) of
        None \<Rightarrow> Some (json_Claims c)
      | Some E \<Rightarrow> if now < E then Some (json_Claims c) else None)"
  by (simp add: lib_SignedString_def lib_ParseWithClaims_def dec_string_enc_string
      dec_Claims_enc_Claims)

lemma golang_jwt_env_at: "golang_jwt (env_at t)"
  unfolding golang_jwt_def using lib_round_trip
  by (simp add: env_at_def env0_def)

lemma generateToken_env_at:
  "generateToken (env_at t) cfg0 user_ana world0 = (Some token_ana, world0\<lparr>n_now := 2\<rparr>)"
  by (simp add: generateToken_eq env_at_def env0_def cfg0_def user_ana_def world0_def
      claims_ana_def NewNumericDate_def time_Hour_def lib_SignedString_def token_ana_def)

lemma generateToken_jose:
  "generateToken (env_at t) cfg0 user_jose world0 = (Some token_jose, world0\<lparr>n_now := 2\<rparr>)"
  by (simp add: generateToken_eq env_at_def env0_def cfg0_def user_jose_def world0_def
      claims_jose_def NewNumericDate_def time_Hour_def lib_SignedString_def token_jose_def)

lemmas utf8_defs =
  json_string_def utf8_ValidString_def utf8_len_def utf8_size_def utf8_second_def
  utf8_between_def

lemma json_string_jose:
  "json_string (''jos'' @ [CHR 0xE9] @ ''@example.com'') =
     ''jos'' @ [CHR 0xEF, CHR 0xBF, CHR 0xBD] @ ''@example.com''"
  by (simp add: utf8_defs)

lemma utf8_valid_ana:
  "utf8_ValidString ''ana@example.com''" "utf8_ValidString ''customer''"
  by (simp_all add: utf8_defs)


text \<open>
  C4 (amended). Let the JWT library do what \<open>golang_jwt\<close> says, let the clock at
  issuance show a time that \<open>UnixNano\<close> can hold, and let \<open>generateToken\<close> issue
  a token for a user; its expiry \<open>E\<close> is the clock at issuance plus the configured
  hours, cut to the second. When the token is presented to \<open>authMiddleware\<close>, in the
  cookie \<open>auth_token\<close> or else as \<open>Bearer\<close> token of the \<open>Authorization\<close>
  header, at a time from \<open>E\<close> on, the answer is the redirect to the login page with
  the cookie cleared; at a time before \<open>E\<close>, the handler behind the middleware runs
  with the claims of the issuance in its context: the id of the user, and the email and
  the role of the user as JSON carries them, with U+FFFD for every byte that is not
  part of a valid UTF-8 encoding. They are the email and the role themselves when these
  are valid UTF-8.
\<close>

theorem token_expiry_and_claims:
  assumes "golang_jwt e"
      and "clock_in_range (now_at e (n_now w0))"
      and "clock_in_range (now_at e (Suc (n_now w0)))"
      and "generateToken e cfg user w0 = (Some tok, w0')"
      and "map_of (cookies r) ''auth_token'' = Some tok \<or>
           (map_of (cookies r) ''auth_token'' = None \<and>
            map_of (headers r) ''Authorization'' = Some (''Bearer '' @ tok))"
  shows "let E = NewNumericDate
                   (now_at e (n_now w0) + sint (Config_JWT_ExpirationHours cfg * time_Hour));
             now = now_at e (n_now w)
         in (E \<le> now \<longrightarrow>
               authMiddleware e cfg next r w =
                 (\<lparr>set_cookies = [clearAuthCookie],
                   reply = Redirect ''/login'' StatusSeeOther\<rparr>,
                  w\<lparr>n_now := Suc (n_now w)\<rparr>)) \<and>
            (now < E \<longrightarrow>
               authMiddleware e cfg next r w =
                 next (r\<lparr>ctx_user := Some
                         \<lparr>Claims_UserID = User_ID user,
                          Claims_Email = json_string (User_Email user),
                          Claims_Role = json_string (User_Role user),
                          Claims_ExpiresAt = Some E,
                          Claims_IssuedAt = Some (NewNumericDate (now_at e (Suc (n_now w0)))),
                          Claims_Issuer = json_string (Config_Business_Name cfg)\<rparr>\<rparr>)
                      (w\<lparr>n_now := Suc (n_now w)\<rparr>)) \<and>
            (utf8_ValidString (User_Email user) \<longrightarrow>
               json_string (User_Email user) = User_Email user) \<and>
            (utf8_ValidString (User_Role user) \<longrightarrow>
               json_string (User_Role user) = User_Role user)"
  by (simp add: Let_def authMiddleware_token [OF assms(5)]
      issued_token_parse [OF assms(1-4)] json_string_valid)

text \<open>
  C4, witness: the token of user Ana, issued at 1700000000 s for 24 hours, is accepted
  7 ns later, with her role and her email in the claims, and rejected at its expiry.
\<close>

theorem token_expiry_and_claims_witness:
  "golang_jwt (env_at 1700000000000000007) \<and>
   clock_in_range (now_at (env_at 1700000000000000007) (n_now world0)) \<and>
   clock_in_range (now_at (env_at 1700000000000000007) (Suc (n_now world0))) \<and>
   generateToken (env_at 1700000000000000007) cfg0 user_ana world0 =
     (Some token_ana, world0\<lparr>n_now := 2\<rparr>) \<and>
   map_of (cookies (cookie_request token_ana)) ''auth_token'' = Some token_ana \<and>
   utf8_ValidString (User_Email user_ana) \<and> utf8_ValidString (User_Role user_ana) \<and>
   authMiddleware (env_at 1700000000000000007) cfg0 echo_handler
     (cookie_request token_ana) (world0\<lparr>n_now := 2\<rparr>) =
     (http_Redirect ''/ok/customer'' StatusSeeOther, world0\<lparr>n_now := 3\<rparr>) \<and>
   authMiddleware (env_at 1700000000000000007) cfg0 echo_email_handler
     (cookie_request token_ana) (world0\<lparr>n_now := 2\<rparr>) =
     (http_Redirect ''/ok/ana@example.com'' StatusSeeOther, world0\<lparr>n_now := 3\<rparr>) \<and>
   golang_jwt (env_at 1700086400000000000) \<and>
   clock_in_range (now_at (env_at 1700086400000000000) (n_now world0)) \<and>
   clock_in_range (now_at (env_at 1700086400000000000) (Suc (n_now world0))) \<and>
   generateToken (env_at 1700086400000000000) cfg0 user_ana world0 =
     (Some token_ana, world0\<lparr>n_now := 2\<rparr>) \<and>
   authMiddleware (env_at 1700086400000000000) cfg0 echo_handler
     (cookie_request token_ana) (world0\<lparr>n_now := 2\<rparr>) =
     (\<lparr>set_cookies = [clearAuthCookie], reply = Redirect ''/login'' StatusSeeOther\<rparr>,
      world0\<lparr>n_now := 3\<rparr>)"
proof -
  let ?r = "cookie_request token_ana"
  let ?w = "world0\<lparr>n_now := 2\<rparr>"
  have k: "map_of (cookies ?r) ''auth_token'' = Some token_ana \<or>
           (map_of (cookies ?r) ''auth_token'' = None \<and>
            map_of (headers ?r) ''Authorization'' = Some (''Bearer '' @ token_ana))"
    by (simp add: cookie_request_def)
  have m: "map_of (cookies ?r) ''auth_token'' = Some token_ana"
    by (simp add: cookie_request_def)
  have c1: "\<And>t. clock_in_range (now_at (env_at t) (n_now world0))"
    and c2: "\<And>t. clock_in_range (now_at (env_at t) (Suc (n_now world0)))"
    by (simp_all add: clock_in_range_def env_at_def env0_def world0_def)
  have u: "utf8_ValidString (User_Email user_ana)" "utf8_ValidString (User_Role user_ana)"
    using utf8_valid_ana by (simp_all add: user_ana_def)
  have v: "\<And>t. now_at (env_at t) (n_now world0) = 1700000000000000000"
          "\<And>t. now_at (env_at t) (Suc (n_now world0)) = 1700000000000000000"
          "\<And>t. now_at (env_at t) (n_now ?w) = t"
          "\<And>t. now_at (env_at t) 2 = t"
          "sint (Config_JWT_ExpirationHours cfg0 * time_Hour) = 86400000000000"
          "NewNumericDate 1700086400000000000 = 1700086400000000000"
          "NewNumericDate 1700000000000000000 = 1700000000000000000"
          "Suc (n_now ?w) = 3"
    by (simp_all add: env_at_def env0_def world0_def cfg0_def time_Hour_def NewNumericDate_def)
  note t1 = token_expiry_and_claims [OF golang_jwt_env_at c1 c2 generateToken_env_at k,
      of 1700000000000000007 ?w]
  note t2 = token_expiry_and_claims [OF golang_jwt_env_at c1 c2 generateToken_env_at k,
      of 1700086400000000000 ?w]
  have early: "authMiddleware (env_at 1700000000000000007) cfg0 echo_handler ?r ?w =
                 (http_Redirect ''/ok/customer'' StatusSeeOther, world0\<lparr>n_now := 3\<rparr>)"
    using t1 [of echo_handler] u
    by (simp add: Let_def v echo_handler_def) (simp add: user_ana_def)
  have email: "authMiddleware (env_at 1700000000000000007) cfg0 echo_email_handler ?r ?w =
                 (http_Redirect ''/ok/ana@example.com'' StatusSeeOther, world0\<lparr>n_now := 3\<rparr>)"
    using t1 [of echo_email_handler] u
    by (simp add: Let_def v echo_email_handler_def) (simp add: user_ana_def)
  have late: "authMiddleware (env_at 1700086400000000000) cfg0 echo_handler ?r ?w =
                (\<lparr>set_cookies = [clearAuthCookie], reply = Redirect ''/login'' StatusSeeOther\<rparr>,
                 world0\<lparr>n_now := 3\<rparr>)"
    using t2 [of echo_handler]
    by (simp add: Let_def v)
  from golang_jwt_env_at [of 1700000000000000007] golang_jwt_env_at [of 1700086400000000000]
    c1 [of 1700000000000000007] c2 [of 1700000000000000007]
    c1 [of 1700086400000000000] c2 [of 1700086400000000000]
    generateToken_env_at [of 1700000000000000007] generateToken_env_at [of 1700086400000000000]
    m u early email late
  show ?thesis by blast
qed

text \<open>
  C4, counterexample to the claim as stated: the email of Jose holds the byte E9, which
  is no UTF-8. His token is accepted before its expiry, but the email of the claims
  holds U+FFFD in the place of that byte: it is not the email that was true of the user
  at issuance.
\<close>

theorem token_claims_email_counterexample:
  "golang_jwt (env_at 1700000000000000007) \<and>
   generateToken (env_at 1700000000000000007) cfg0 user_jose world0 =
     (Some token_jose, world0\<lparr>n_now := 2\<rparr>) \<and>
   User_Email user_jose = ''jos'' @ [CHR 0xE9] @ ''@example.com'' \<and>
   authMiddleware (env_at 1700000000000000007) cfg0 echo_email_handler
     (cookie_request token_jose) (world0\<lparr>n_now := 2\<rparr>) =
     (http_Redirect (''/ok/'' @ ''jos'' @ [CHR 0xEF, CHR 0xBF, CHR 0xBD] @ ''@example.com'')
        StatusSeeOther, world0\<lparr>n_now := 3\<rparr>) \<and>
   ''jos'' @ [CHR 0xEF, CHR 0xBF, CHR 0xBD] @ ''@example.com'' \<noteq> User_Email user_jose"
proof -
  let ?e = "env_at 1700000000000000007"
  let ?r = "cookie_request token_jose"
  let ?w = "world0\<lparr>n_now := 2\<rparr>"
  have k: "map_of (cookies ?r) ''auth_token'' = Some token_jose \<or>
           (map_of (cookies ?r) ''auth_token'' = None \<and>
            map_of (headers ?r) ''Authorization'' = Some (''Bearer '' @ token_jose))"
    by (simp add: cookie_request_def)
  have c1: "clock_in_range (now_at ?e (n_now world0))"
    and c2: "clock_in_range (now_at ?e (Suc (n_now world0)))"
    by (simp_all add: clock_in_range_def env_at_def env0_def world0_def)
  have v: "now_at ?e (n_now world0) = 1700000000000000000"
          "now_at ?e (Suc (n_now world0)) = 1700000000000000000"
          "now_at ?e (n_now ?w) = 1700000000000000007"
          "now_at ?e 2 = 1700000000000000007"
          "sint (Config_JWT_ExpirationHours cfg0 * time_Hour) = 86400000000000"
          "NewNumericDate 1700086400000000000 = 1700086400000000000"
          "NewNumericDate 1700000000000000000 = 1700000000000000000"
          "Suc (n_now ?w) = 3"
    by (simp_all add: env_at_def env0_def world0_def cfg0_def time_Hour_def NewNumericDate_def)
  have em: "User_Email user_jose = ''jos'' @ [CHR 0xE9] @ ''@example.com''"
    by (simp add: user_jose_def)
  have js: "json_string (User_Email user_jose) =
              ''jos'' @ [CHR 0xEF, CHR 0xBF, CHR 0xBD] @ ''@example.com''"
    using json_string_jose by (simp add: user_jose_def)
  have run: "authMiddleware ?e cfg0 echo_email_handler ?r ?w =
               (http_Redirect (''/ok/'' @ ''jos'' @ [CHR 0xEF, CHR 0xBF, CHR 0xBD] @
                               ''@example.com'') StatusSeeOther, world0\<lparr>n_now := 3\<rparr>)"
    using js
    by (simp add: authMiddleware_token [OF k]
        issued_token_parse [OF golang_jwt_env_at c1 c2 generateToken_jose] v
        echo_email_handler_def)
  have ne: "''jos'' @ [CHR 0xEF, CHR 0xBF, CHR 0xBD] @ ''@example.com'' \<noteq> User_Email user_jose"
    by (simp add: user_jose_def)
  from golang_jwt_env_at [of 1700000000000000007] generateToken_jose [of 1700000000000000007]
    em run ne
  show ?thesis by blast
qed

subsection \<open>Password hashes\<close>









end
